theory Spec2Isabelle
  imports Main
begin

section \<open>JavaScript values\<close>

text \<open>
  Request bodies arrive through \<^verbatim>\<open>express.json\<close>, so every field is a JSON value. A field
  that is absent reads as \<^verbatim>\<open>undefined\<close>. Numbers are kept as integers: the handlers only
  test them for truthiness and pass them on. Strings are byte strings (UTF-8).
\<close>

datatype jsval =
    JUndefined
  | JNull
  | JBool bool
  | JNum int
  | JStr string
  | JArr "jsval list"
  | JObj "(string \<times> jsval) list"

type_synonym object = "(string \<times> jsval) list"

datatype js_type = TUndefined | TNull | TBoolean | TNumber | TString | TObject

fun typeof :: "jsval \<Rightarrow> js_type" where
  "typeof JUndefined = TUndefined"
| "typeof JNull = TNull"
| "typeof (JBool b) = TBoolean"
| "typeof (JNum n) = TNumber"
| "typeof (JStr s) = TString"
| "typeof (JArr xs) = TObject"
| "typeof (JObj kvs) = TObject"

text \<open>\<^verbatim>\<open>!x\<close> is \<open>\<not> truthy x\<close>: an empty array or object is truthy, an empty string is not.\<close>

fun truthy :: "jsval \<Rightarrow> bool" where
  "truthy JUndefined = False"
| "truthy JNull = False"
| "truthy (JBool b) = b"
| "truthy (JNum n) = (n \<noteq> 0)"
| "truthy (JStr s) = (s \<noteq> [])"
| "truthy (JArr xs) = True"
| "truthy (JObj kvs) = True"

fun nullish :: "jsval \<Rightarrow> bool" where
  "nullish JUndefined = True"
| "nullish JNull = True"
| "nullish v = False"

text \<open>Destructuring \<^verbatim>\<open>const { k } = obj\<close>: the value of the key, or \<^verbatim>\<open>undefined\<close>.\<close>

definition field :: "object \<Rightarrow> string \<Rightarrow> jsval" where
  "field obj k = (case map_of obj k of None \<Rightarrow> JUndefined | Some v \<Rightarrow> v)"

text \<open>\<^verbatim>\<open>a ?? b\<close> and \<^verbatim>\<open>a || b\<close>.\<close>

definition nullish_or :: "jsval \<Rightarrow> jsval \<Rightarrow> jsval" where
  "nullish_or a b = (if nullish a then b else a)"

definition js_or :: "jsval \<Rightarrow> jsval \<Rightarrow> jsval" where
  "js_or a b = (if truthy a then a else b)"

text \<open>
  \<^verbatim>\<open>Object.keys\<close> of a parsed JSON object. An object is the list of its own properties,
  each key once, in the order in which \<^verbatim>\<open>Object.keys\<close> enumerates them (integer-like keys
  first, ascending, then the others in the order of the JSON text; of a key the text
  repeats, the last value).
\<close>

definition Object_keys :: "object \<Rightarrow> jsval" where
  "Object_keys obj = JArr (map (\<lambda>kv. JStr (fst kv)) obj)"

text \<open>
  \<^verbatim>\<open>a === b\<close>. Two objects are equal only when they are the same reference; the values
  compared here come from different sources (request body, verifier result), so two
  objects are never the same reference.
\<close>

definition strict_eq :: "jsval \<Rightarrow> jsval \<Rightarrow> bool" where
  "strict_eq a b = (typeof a \<noteq> TObject \<and> a = b)"

subsection \<open>Thrown errors\<close>

text \<open>
  Every \<^verbatim>\<open>throw\<close> of the source, and every rejection of an awaited call, is the \<open>Inl\<close>
  branch of a sum. The values thrown are \<^verbatim>\<open>Error\<close> instances, kept by class and message.
\<close>

datatype js_error =
    Error string
  | TypeError string
  | ReferenceError string
  | RangeError string

fun message :: "js_error \<Rightarrow> string" where
  "message (Error m) = m"
| "message (TypeError m) = m"
| "message (ReferenceError m) = m"
| "message (RangeError m) = m"

section \<open>The store (database.mjs)\<close>

text \<open>
  Table \<^verbatim>\<open>zkpass (address, identifier, provider)\<close> and table
  \<^verbatim>\<open>selfcheck (attestationId, proof)\<close>; a row keeps the parameter values the code passed.
  \<open>calls\<close> is the log of the calls that left the process (verifier calls and SQL
  statements), in order. \<open>console\<close> holds the objects of the two policy lines the
  handler of POST /api/verify prints (expiry, issuing country); the other log lines of the
  source carry nothing that is stated below and are left out.
\<close>

datatype sql =
    InsertZkpass jsval jsval jsval
  | InsertSelfcheck jsval jsval
  | CountSelfcheck jsval

datatype call =
    SelfVerify jsval jsval jsval jsval
  | ZkVerify jsval jsval jsval jsval
  | Query sql

record world =
  zkpass :: "(jsval \<times> jsval \<times> jsval) list"
  selfcheck :: "(jsval \<times> jsval) list"
  calls :: "call list"
  console :: "jsval list"

record zk_result =
  verified :: jsval
  uniqueIdentifier :: jsval
  queryResultErrors :: jsval

record self_result =
  isValidDetails :: object
  discloseOutput :: object
  userData :: "object option"

text \<open>
  What the handlers take from outside: the clock and the runtime's date functions, the two
  verifier SDKs, and the failures of the database (\<open>query_error\<close> says whether a statement
  is rejected on a given store, and with which error). \<open>newDate\<close> is the time value of
  \<^verbatim>\<open>new Date(v)\<close>, \<open>None\<close> for an invalid date, and \<open>toISOString\<close> the text of a valid
  one. \<open>coerced_eq\<close> stands for the cases of \<^verbatim>\<open>==\<close> that convert an operand (number
  against string, boolean, object against primitive), and \<open>Buffer_from_object\<close> for
  \<^verbatim>\<open>Buffer.from\<close> on an array or an object.
\<close>

record env =
  now :: int
  LocalTZA :: "int \<Rightarrow> bool \<Rightarrow> int"
  newDate :: "jsval \<Rightarrow> int option"
  toISOString :: "int \<Rightarrow> string"
  selfBackendVerifier :: "(jsval \<Rightarrow> jsval \<Rightarrow> jsval \<Rightarrow> jsval \<Rightarrow> js_error + self_result) option"
  zk_verify :: "jsval \<Rightarrow> jsval \<Rightarrow> jsval \<Rightarrow> jsval \<Rightarrow> js_error + zk_result"
  query_error :: "world \<Rightarrow> sql \<Rightarrow> js_error option"
  coerced_eq :: "jsval \<Rightarrow> jsval \<Rightarrow> js_error + bool"
  Buffer_from_object :: "jsval \<Rightarrow> js_error + nat list"

text \<open>\<^verbatim>\<open>a == b\<close>.\<close>

definition loose_eq :: "env \<Rightarrow> jsval \<Rightarrow> jsval \<Rightarrow> js_error + bool" where
  "loose_eq e a b =
     (if typeof a = typeof b then Inr (typeof a \<noteq> TObject \<and> a = b)
      else if nullish a \<and> nullish b then Inr True
      else if nullish a \<or> nullish b then Inr False
      else coerced_eq e a b)"

definition zkpass_row :: "jsval \<Rightarrow> jsval \<Rightarrow> jsval \<Rightarrow> object" where
  "zkpass_row address identifier provider =
     [(''address'', address), (''identifier'', identifier), (''provider'', provider)]"

definition selfcheck_row :: "jsval \<Rightarrow> jsval \<Rightarrow> object" where
  "selfcheck_row attestationId proof = [(''attestationId'', attestationId), (''proof'', proof)]"

text \<open>
  \<^verbatim>\<open>pool.query\<close>: the statement is logged; if the database rejects it the store is
  unchanged and the error is thrown; otherwise an \<^verbatim>\<open>INSERT ... RETURNING *\<close> appends one row
  and returns it, and the \<^verbatim>\<open>SELECT COUNT(*)\<close> counts the rows whose attestationId equals the
  parameter (a null parameter equals nothing). The rows hold the JavaScript values of the
  parameters where the tables hold their text, and the \<^verbatim>\<open>SELECT\<close> compares values: for
  identifiers that are strings this is the comparison the database makes; a number and the
  string of its digits are one text to the database and two values here.
\<close>

definition pool_query :: "env \<Rightarrow> sql \<Rightarrow> world \<Rightarrow> (js_error + object list) \<times> world" where
  "pool_query e q w =
     (let w1 = w\<lparr>calls := calls w @ [Query q]\<rparr> in
      case query_error e w q of
        Some err \<Rightarrow> (Inl err, w1)
      | None \<Rightarrow>
          (case q of
             InsertZkpass address identifier provider \<Rightarrow>
               (Inr [zkpass_row address identifier provider],
                w1\<lparr>zkpass := zkpass w1 @ [(address, identifier, provider)]\<rparr>)
           | InsertSelfcheck attestationId proof \<Rightarrow>
               (Inr [selfcheck_row attestationId proof],
                w1\<lparr>selfcheck := selfcheck w1 @ [(attestationId, proof)]\<rparr>)
           | CountSelfcheck attestationId \<Rightarrow>
               (Inr [[(''count'',
                       JNum (int (length (filter (\<lambda>r. \<not> nullish attestationId \<and> fst r = attestationId)
                                            (selfcheck w)))))]],
                w1)))"

definition rows0 :: "object list \<Rightarrow> jsval" where
  "rows0 rows = (case rows of [] \<Rightarrow> JUndefined | r # rest \<Rightarrow> JObj r)"

definition saveVerification ::
  "env \<Rightarrow> jsval \<Rightarrow> jsval \<Rightarrow> jsval \<Rightarrow> world \<Rightarrow> (js_error + jsval) \<times> world" where
  "saveVerification e uid address provider w =
     (case pool_query e (InsertZkpass address uid provider) w of
        (Inl err, w') \<Rightarrow> (Inl err, w')
      | (Inr rows, w') \<Rightarrow> (Inr (rows0 rows), w'))"

definition saveSelfCheck ::
  "env \<Rightarrow> jsval \<Rightarrow> jsval \<Rightarrow> world \<Rightarrow> (js_error + jsval) \<times> world" where
  "saveSelfCheck e attestationId proof w =
     (case pool_query e (InsertSelfcheck attestationId proof) w of
        (Inl err, w') \<Rightarrow> (Inl err, w')
      | (Inr rows, w') \<Rightarrow> (Inr (rows0 rows), w'))"

text \<open>\<^verbatim>\<open>parseInt(result.rows[0].count) > 0\<close>; the count comes back as a number.\<close>

definition checkAttestationExists ::
  "env \<Rightarrow> jsval \<Rightarrow> world \<Rightarrow> (js_error + bool) \<times> world" where
  "checkAttestationExists e attestationId w =
     (case pool_query e (CountSelfcheck attestationId) w of
        (Inl err, w') \<Rightarrow> (Inl err, w')
      | (Inr rows, w') \<Rightarrow>
          (case rows of
             [] \<Rightarrow> (Inl (TypeError ''Cannot read properties of undefined (reading 'count')''), w')
           | r # rest \<Rightarrow>
               (case field r ''count'' of
                  JNum n \<Rightarrow> (Inr (0 < n), w')
                | other \<Rightarrow> (Inr False, w'))))"

section \<open>HTTP responses\<close>

record http_response =
  status :: nat
  json :: jsval

definition verification_failed :: http_response where
  "verification_failed = \<lparr>status = 500, json = JObj [(''error'', JStr ''verification_failed'')]\<rparr>"

section \<open>POST /api/verify/zkpass\<close>

text \<open>\<^verbatim>\<open>const qr = queryResult ?? result\<close>\<close>

definition zkpass_qr :: "object \<Rightarrow> jsval" where
  "zkpass_qr body = nullish_or (field body ''queryResult'') (field body ''result'')"

text \<open>\<^verbatim>\<open>!proofs || !qr || !scope\<close>\<close>

definition zkpass_missing :: "object \<Rightarrow> bool" where
  "zkpass_missing body =
     (\<not> truthy (field body ''proofs'') \<or> \<not> truthy (zkpass_qr body) \<or> \<not> truthy (field body ''scope''))"

text \<open>\<^verbatim>\<open>typeof devMode === "boolean" ? devMode : true\<close>\<close>

definition devMode_or_true :: "jsval \<Rightarrow> jsval" where
  "devMode_or_true d = (if typeof d = TBoolean then d else JBool True)"

text \<open>The world once \<^verbatim>\<open>zk.verify\<close> has been called with the fields of the body.\<close>

definition zkpass_called :: "object \<Rightarrow> world \<Rightarrow> world" where
  "zkpass_called body w =
     w\<lparr>calls := calls w @ [ZkVerify (field body ''proofs'') (zkpass_qr body) (field body ''scope'')
                               (devMode_or_true (field body ''devMode''))]\<rparr>"

text \<open>
  The gate \<^verbatim>\<open>serverUID == clientUID && verified == true\<close>, left to right with the
  short-circuit of \<^verbatim>\<open>&&\<close>.
\<close>

definition zkpass_gate :: "env \<Rightarrow> jsval \<Rightarrow> jsval \<Rightarrow> jsval \<Rightarrow> js_error + bool" where
  "zkpass_gate e serverUID clientUID v =
     (case loose_eq e serverUID clientUID of
        Inl err \<Rightarrow> Inl err
      | Inr same \<Rightarrow> (if same then loose_eq e v (JBool True) else Inr False))"

text \<open>
  The object handed to \<^verbatim>\<open>res.json\<close> at the end of the handler of src/unnamed/part_003.
\<close>

definition zkpass_envelope :: "env \<Rightarrow> jsval \<Rightarrow> jsval \<Rightarrow> jsval \<Rightarrow> jsval \<Rightarrow> jsval \<Rightarrow> jsval" where
  "zkpass_envelope e v clientUID serverUID qre cosmosAddress =
     JObj [(''status'', JStr (if truthy v then ''success'' else ''error'')),
           (''verified'', v),
           (''clientUID'', clientUID),
           (''serverUID'', serverUID),
           (''match'', if truthy clientUID then JBool (strict_eq clientUID serverUID) else JNull),
           (''queryResultErrors'', qre),
           (''address'', nullish_or cosmosAddress JNull),
           (''timestamp'', JStr (toISOString e (now e)))]"

text \<open>
  The handler. \<open>provider\<close> is the third argument the variant gives \<^verbatim>\<open>saveVerification\<close>,
  and \<open>respond\<close> evaluates the object literal of the final \<^verbatim>\<open>res.json\<close>: the two variants
  of the handler differ in these two places only. An error thrown anywhere after the
  validation reaches the \<^verbatim>\<open>catch\<close> of the handler; an error thrown by the save is caught
  by the inner \<^verbatim>\<open>catch\<close> and dropped.
\<close>

definition zkpass_handler ::
  "jsval \<Rightarrow> (jsval \<Rightarrow> jsval \<Rightarrow> jsval \<Rightarrow> jsval \<Rightarrow> jsval \<Rightarrow> js_error + jsval) \<Rightarrow>
     env \<Rightarrow> object \<Rightarrow> world \<Rightarrow> http_response \<times> world" where
  "zkpass_handler provider respond e body w =
     (if zkpass_missing body
      then (\<lparr>status = 400,
              json = JObj [(''error'', JStr ''missing fields''), (''have'', Object_keys body)]\<rparr>, w)
      else
        (let clientUID = field body ''uniqueIdentifier'';
             cosmosAddress = field body ''cosmosAddress'';
             w1 = zkpass_called body w
         in case zk_verify e (field body ''proofs'') (zkpass_qr body) (field body ''scope'')
                   (devMode_or_true (field body ''devMode'')) of
              Inl err \<Rightarrow> (verification_failed, w1)
            | Inr r \<Rightarrow>
                (case zkpass_gate e (uniqueIdentifier r) clientUID (verified r) of
                   Inl err \<Rightarrow> (verification_failed, w1)
                 | Inr gate \<Rightarrow>
                     (let w2 = (if gate
                                then snd (saveVerification e (js_or clientUID (uniqueIdentifier r))
                                            (nullish_or cosmosAddress JNull) provider w1)
                                else w1)
                      in case respond (verified r) clientUID (uniqueIdentifier r)
                                (queryResultErrors r) cosmosAddress of
                           Inl err \<Rightarrow> (verification_failed, w2)
                         | Inr obj \<Rightarrow> (\<lparr>status = 200, json = obj\<rparr>, w2)))))"

text \<open>
  src/unnamed/part_003, lines 317-380: the provider is \<^verbatim>\<open>"zkpass"\<close> and the response reads
  \<^verbatim>\<open>address: cosmosAddress ?? null\<close>.
\<close>

definition part3_respond ::
  "env \<Rightarrow> jsval \<Rightarrow> jsval \<Rightarrow> jsval \<Rightarrow> jsval \<Rightarrow> jsval \<Rightarrow> js_error + jsval" where
  "part3_respond e v clientUID serverUID qre cosmosAddress =
     Inr (zkpass_envelope e v clientUID serverUID qre cosmosAddress)"

definition part3_verify_zkpass :: "env \<Rightarrow> object \<Rightarrow> world \<Rightarrow> http_response \<times> world" where
  "part3_verify_zkpass e = zkpass_handler (JStr ''zkpass'') (part3_respond e) e"

text \<open>
  src/server.mjs, lines 273-336: \<^verbatim>\<open>saveVerification\<close> gets two arguments, so \<open>provider\<close> is
  \<^verbatim>\<open>undefined\<close>; and the response reads \<^verbatim>\<open>address: address ?? null\<close>, where no binding
  \<^verbatim>\<open>address\<close> exists in the module, so evaluating the object literal throws a
  ReferenceError, which the handler's \<^verbatim>\<open>catch\<close> turns into the 500 response.
\<close>

definition server_respond ::
  "jsval \<Rightarrow> jsval \<Rightarrow> jsval \<Rightarrow> jsval \<Rightarrow> jsval \<Rightarrow> js_error + jsval" where
  "server_respond v clientUID serverUID qre cosmosAddress =
     Inl (ReferenceError ''address is not defined'')"

definition server_verify_zkpass :: "env \<Rightarrow> object \<Rightarrow> world \<Rightarrow> http_response \<times> world" where
  "server_verify_zkpass e = zkpass_handler JUndefined server_respond e"

section \<open>Dates\<close>

text \<open>
  The time value of a \<^verbatim>\<open>Date\<close> is an integer number of milliseconds since the epoch, or NaN
  (\<open>None\<close>). The functions are those of the language standard (Day, DayFromYear,
  YearFromTime, MonthFromTime, DateFromTime, MakeDay, MakeDate, TimeClip, LocalTime, UTC).
\<close>

definition msPerDay :: int where
  "msPerDay = 86400000"

definition Day :: "int \<Rightarrow> int" where
  "Day t = t div msPerDay"

definition TimeWithinDay :: "int \<Rightarrow> int" where
  "TimeWithinDay t = t mod msPerDay"

definition DaysInYear :: "int \<Rightarrow> int" where
  "DaysInYear y =
     (if y mod 4 \<noteq> 0 then 365 else if y mod 100 \<noteq> 0 then 366 else if y mod 400 \<noteq> 0 then 365 else 366)"

definition DayFromYear :: "int \<Rightarrow> int" where
  "DayFromYear y = 365 * (y - 1970) + (y - 1969) div 4 - (y - 1901) div 100 + (y - 1601) div 400"

text \<open>
  The largest year \<open>y\<close> with \<open>DayFromYear y \<le> d\<close>: the search starts at a year that is
  not after it (no year has more than 366 days nor fewer than 365) and walks up.
\<close>

function year_search :: "int \<Rightarrow> int \<Rightarrow> int" where
  "year_search y d = (if DayFromYear (y + 1) \<le> d then year_search (y + 1) d else y)"
  by pat_completeness auto

termination
proof (relation "measure (\<lambda>(y, d). nat (d + 1 - DayFromYear (y + 1)))")
  show "wf (measure (\<lambda>(y, d). nat (d + 1 - DayFromYear (y + 1))))"
    by simp
next
  fix y d :: int
  assume le: "DayFromYear (y + 1) \<le> d"
  have a: "(y + 1 - 1969) div 4 \<le> (y + 1 + 1 - 1969) div 4"
    by (rule zdiv_mono1) simp_all
  have "(y + 1 + 1 - 1901) div 100 \<le> (y + 1 - 1901 + 100) div 100"
    by (rule zdiv_mono1) simp_all
  also have "\<dots> = (y + 1 - 1901) div 100 + 1"
    by simp
  finally have b: "(y + 1 + 1 - 1901) div 100 \<le> (y + 1 - 1901) div 100 + 1" .
  have c: "(y + 1 - 1601) div 400 \<le> (y + 1 + 1 - 1601) div 400"
    by (rule zdiv_mono1) simp_all
  have key: "\<And>p p' q q' r r' :: int. p \<le> p' \<Longrightarrow> q' \<le> q + 1 \<Longrightarrow> r \<le> r' \<Longrightarrow>
      365 * (y + 1 - 1970) + p - q + r < 365 * (y + 1 + 1 - 1970) + p' - q' + r'"
    by (simp add: algebra_simps)
  have "DayFromYear (y + 1) < DayFromYear (y + 1 + 1)"
    unfolding DayFromYear_def by (rule key [OF a b c])
  with le show "((y + 1, d), (y, d)) \<in> measure (\<lambda>(y, d). nat (d + 1 - DayFromYear (y + 1)))"
    by simp
qed

declare year_search.simps [simp del]

definition YearFromDay :: "int \<Rightarrow> int" where
  "YearFromDay d = year_search (1970 + (if 0 \<le> d then d div 366 else d div 365)) d"

definition YearFromTime :: "int \<Rightarrow> int" where
  "YearFromTime t = YearFromDay (Day t)"

definition InLeapYear :: "int \<Rightarrow> int" where
  "InLeapYear t = (if DaysInYear (YearFromTime t) = 366 then 1 else 0)"

definition DayWithinYear :: "int \<Rightarrow> int" where
  "DayWithinYear t = Day t - DayFromYear (YearFromTime t)"

definition MonthFromTime :: "int \<Rightarrow> int" where
  "MonthFromTime t =
     (let d = DayWithinYear t; l = InLeapYear t in
      if d < 31 then 0
      else if d < 59 + l then 1
      else if d < 90 + l then 2
      else if d < 120 + l then 3
      else if d < 151 + l then 4
      else if d < 181 + l then 5
      else if d < 212 + l then 6
      else if d < 243 + l then 7
      else if d < 273 + l then 8
      else if d < 304 + l then 9
      else if d < 334 + l then 10
      else 11)"

definition DateFromTime :: "int \<Rightarrow> int" where
  "DateFromTime t =
     (let d = DayWithinYear t; l = InLeapYear t; m = MonthFromTime t in
      if m = 0 then d + 1
      else if m = 1 then d - 30
      else if m = 2 then d - 58 - l
      else if m = 3 then d - 89 - l
      else if m = 4 then d - 119 - l
      else if m = 5 then d - 150 - l
      else if m = 6 then d - 180 - l
      else if m = 7 then d - 211 - l
      else if m = 8 then d - 242 - l
      else if m = 9 then d - 272 - l
      else if m = 10 then d - 303 - l
      else d - 333 - l)"

text \<open>The day number of the first day of month \<open>m\<close> (0 to 11) within a year.\<close>

definition month_start :: "int \<Rightarrow> int \<Rightarrow> int" where
  "month_start m l =
     (if m = 0 then 0
      else if m = 1 then 31
      else if m = 2 then 59 + l
      else if m = 3 then 90 + l
      else if m = 4 then 120 + l
      else if m = 5 then 151 + l
      else if m = 6 then 181 + l
      else if m = 7 then 212 + l
      else if m = 8 then 243 + l
      else if m = 9 then 273 + l
      else if m = 10 then 304 + l
      else 334 + l)"

definition MakeDay :: "int \<Rightarrow> int \<Rightarrow> int \<Rightarrow> int" where
  "MakeDay year month date =
     (let ym = year + month div 12; mn = month mod 12 in
      DayFromYear ym + month_start mn (if DaysInYear ym = 366 then 1 else 0) + date - 1)"

definition MakeDate :: "int \<Rightarrow> int \<Rightarrow> int" where
  "MakeDate day time = day * msPerDay + time"

definition TimeClip :: "int \<Rightarrow> int option" where
  "TimeClip t = (if 8640000000000000 < \<bar>t\<bar> then None else Some t)"

definition LocalTime :: "env \<Rightarrow> int \<Rightarrow> int" where
  "LocalTime e t = t + LocalTZA e t True"

definition UTC :: "env \<Rightarrow> int \<Rightarrow> int" where
  "UTC e t = t - LocalTZA e t False"

definition getFullYear :: "env \<Rightarrow> int \<Rightarrow> int" where
  "getFullYear e t = YearFromTime (LocalTime e t)"

definition setFullYear :: "env \<Rightarrow> int \<Rightarrow> int \<Rightarrow> int option" where
  "setFullYear e t y =
     (let lt = LocalTime e t in
      TimeClip (UTC e (MakeDate (MakeDay y (MonthFromTime lt) (DateFromTime lt)) (TimeWithinDay lt))))"

section \<open>The policy checks of POST /api/verify\<close>

text \<open>
  \<^verbatim>\<open>const oneYearFromNow = new Date();
  oneYearFromNow.setFullYear(oneYearFromNow.getFullYear() + 1);\<close>
\<close>

definition oneYearFromNow :: "env \<Rightarrow> int option" where
  "oneYearFromNow e = setFullYear e (now e) (getFullYear e (now e) + 1)"

text \<open>\<^verbatim>\<open>a > b\<close> on two dates compares the time values, and is false when one is NaN.\<close>

definition date_gt :: "int option \<Rightarrow> int option \<Rightarrow> bool" where
  "date_gt a b = (case a of None \<Rightarrow> False | Some x \<Rightarrow> (case b of None \<Rightarrow> False | Some y \<Rightarrow> y < x))"

text \<open>\<^verbatim>\<open>const isExpiryValid = expiryDate > oneYearFromNow\<close>\<close>

definition isExpiryValid :: "env \<Rightarrow> int option \<Rightarrow> bool" where
  "isExpiryValid e expiryDate = date_gt expiryDate (oneYearFromNow e)"

text \<open>
  \<^verbatim>\<open>Array.prototype.includes\<close>: a scan with SameValueZero, under which a primitive equals
  a value of the same type and content, and an object equals only itself.
\<close>

fun Array_includes :: "jsval list \<Rightarrow> jsval \<Rightarrow> bool" where
  "Array_includes [] v = False"
| "Array_includes (x # xs) v = (if strict_eq x v then True else Array_includes xs v)"

definition allowedCountries :: "jsval list" where
  "allowedCountries = [JStr ''CHN'', JStr ''IDN'', JStr ''MYS'', JStr ''USA'']"

text \<open>\<^verbatim>\<open>const isCountryAllowed = allowedCountries.includes(issuingCountry)\<close>\<close>

definition isCountryAllowed :: "jsval \<Rightarrow> bool" where
  "isCountryAllowed issuingCountry = Array_includes allowedCountries issuingCountry"

section \<open>POST /api/verify\<close>

text \<open>\<^verbatim>\<open>!proof || !publicSignals || !attestationId || !userContextData\<close>\<close>

definition self_missing :: "object \<Rightarrow> bool" where
  "self_missing body =
     (\<not> truthy (field body ''proof'') \<or> \<not> truthy (field body ''publicSignals'') \<or>
      \<not> truthy (field body ''attestationId'') \<or> \<not> truthy (field body ''userContextData''))"

text \<open>The world once \<^verbatim>\<open>selfBackendVerifier.verify\<close> has been called.\<close>

definition self_called :: "object \<Rightarrow> world \<Rightarrow> world" where
  "self_called body w =
     w\<lparr>calls := calls w @ [SelfVerify (field body ''attestationId'') (field body ''proof'')
                               (field body ''publicSignals'') (field body ''userContextData'')]\<rparr>"

text \<open>The response of the handler's \<^verbatim>\<open>catch\<close>: \<^verbatim>\<open>error?.message || "Internal server error"\<close>.\<close>

definition internal_error :: "env \<Rightarrow> js_error \<Rightarrow> http_response" where
  "internal_error e err =
     \<lparr>status = 500,
      json = JObj [(''status'', JStr ''error''),
                   (''message'', js_or (JStr (message err)) (JStr ''Internal server error'')),
                   (''timestamp'', JStr (toISOString e (now e)))]\<rparr>"

text \<open>The body of the response to a proof the verifier rejects.\<close>

definition self_failure :: "env \<Rightarrow> self_result \<Rightarrow> jsval" where
  "self_failure e r =
     JObj [(''status'', JStr ''error''),
           (''result'', JBool False),
           (''message'', JStr ''Verification failed''),
           (''details'', JObj (isValidDetails r)),
           (''timestamp'', JStr (toISOString e (now e)))]"

text \<open>\<^verbatim>\<open>result.userData?.k\<close>\<close>

definition opt_field :: "object option \<Rightarrow> string \<Rightarrow> jsval" where
  "opt_field obj k = (case obj of None \<Rightarrow> JUndefined | Some kvs \<Rightarrow> field kvs k)"

text \<open>
  The two policy lines (src/unnamed/part_003 adds a \<^verbatim>\<open>message\<close> text to each, which is left
  out). \<^verbatim>\<open>expiryDate.toISOString()\<close> throws a RangeError on an invalid date, before anything
  is printed.
\<close>

definition policy_lines :: "env \<Rightarrow> int \<Rightarrow> jsval \<Rightarrow> jsval list" where
  "policy_lines e t issuingCountry =
     [JObj [(''expiryDate'', JStr (takeWhile (\<lambda>c. c \<noteq> CHR ''T'') (toISOString e t))),
            (''hasOneYearValidity'', JBool (isExpiryValid e (Some t)))],
      JObj [(''country'', issuingCountry),
            (''isAllowed'', JBool (isCountryAllowed issuingCountry))]]"

definition policy_log :: "env \<Rightarrow> int option \<Rightarrow> jsval \<Rightarrow> world \<Rightarrow> js_error + world" where
  "policy_log e expiryDate issuingCountry w =
     (case expiryDate of
        None \<Rightarrow> Inl (RangeError ''Invalid time value'')
      | Some t \<Rightarrow> Inr (w\<lparr>console := console w @ policy_lines e t issuingCountry\<rparr>))"

subsection \<open>Decoding the wallet address\<close>

definition hex_val :: "char \<Rightarrow> nat option" where
  "hex_val c =
     (let n = (of_char c :: nat) in
      if 48 \<le> n \<and> n \<le> 57 then Some (n - 48)
      else if 97 \<le> n \<and> n \<le> 102 then Some (n - 87)
      else if 65 \<le> n \<and> n \<le> 70 then Some (n - 55)
      else None)"

text \<open>Two hex digits make a byte; decoding stops at the first pair that is not hex.\<close>

fun hex_decode :: "string \<Rightarrow> nat list" where
  "hex_decode (a # b # rest) =
     (case hex_val a of
        None \<Rightarrow> []
      | Some x \<Rightarrow> (case hex_val b of None \<Rightarrow> [] | Some y \<Rightarrow> (16 * x + y) # hex_decode rest))"
| "hex_decode rest = []"

text \<open>\<^verbatim>\<open>Buffer.from(v, "hex")\<close>\<close>

definition Buffer_from_hex :: "env \<Rightarrow> jsval \<Rightarrow> js_error + nat list" where
  "Buffer_from_hex e v =
     (case v of
        JStr s \<Rightarrow> Inr (hex_decode s)
      | JArr xs \<Rightarrow> Buffer_from_object e v
      | JObj kvs \<Rightarrow> Buffer_from_object e v
      | other \<Rightarrow> Inl (TypeError ''The first argument must be of type string or an instance of Buffer, ArrayBuffer, or Array or an Array-like Object.''))"

text \<open>
  \<^verbatim>\<open>buf.toString("utf8")\<close>: strings are kept as their UTF-8 bytes, so the text is the
  byte sequence itself (the runtime replaces a malformed sequence by U+FFFD, which does
  not change whether the text starts with an ASCII prefix).
\<close>

definition toString_utf8 :: "nat list \<Rightarrow> string" where
  "toString_utf8 bytes = map char_of bytes"

definition startsWith :: "string \<Rightarrow> string \<Rightarrow> bool" where
  "startsWith s p = (take (length p) s = p)"

subsection \<open>src/unnamed/part_003, lines 134-258\<close>

text \<open>The inner \<^verbatim>\<open>try\<close> block (lines 199-227): whatever is thrown inside is dropped.\<close>

definition part3_best_effort :: "env \<Rightarrow> self_result \<Rightarrow> jsval \<Rightarrow> world \<Rightarrow> world" where
  "part3_best_effort e r proof w =
     (case saveSelfCheck e (opt_field (userData r) ''userIdentifier'') proof w of
        (Inl dbErr, w1) \<Rightarrow> w1
      | (Inr saved, w1) \<Rightarrow>
          (case Buffer_from_hex e (opt_field (userData r) ''userDefinedData'') of
             Inl dbErr \<Rightarrow> w1
           | Inr bytes \<Rightarrow>
               (let cosmosAddress = toString_utf8 bytes in
                if \<not> startsWith cosmosAddress ''twilight'' then w1
                else snd (saveVerification e (opt_field (userData r) ''userIdentifier'')
                            (JStr cosmosAddress) (JStr ''self'') w1))))"

definition part3_success :: "env \<Rightarrow> self_result \<Rightarrow> jsval" where
  "part3_success e r =
     JObj [(''status'', JStr ''success''),
           (''message'', JStr ''Verification completed''),
           (''result'', JBool True),
           (''details'', JObj (isValidDetails r)),
           (''timestamp'', JStr (toISOString e (now e)))]"

definition part3_verify :: "env \<Rightarrow> object \<Rightarrow> world \<Rightarrow> http_response \<times> world" where
  "part3_verify e body w =
     (case selfBackendVerifier e of
        None \<Rightarrow> (internal_error e (Error ''Self Backend Verifier not initialized''), w)
      | Some verify \<Rightarrow>
          if self_missing body
          then (\<lparr>status = 400,
                  json = JObj [(''status'', JStr ''error''),
                               (''message'', JStr ''Proof, publicSignals, attestationId, and userContextData are required'')]\<rparr>,
                w)
          else
            (let w1 = self_called body w in
             case verify (field body ''attestationId'') (field body ''proof'')
                    (field body ''publicSignals'') (field body ''userContextData'') of
               Inl err \<Rightarrow> (internal_error e err, w1)
             | Inr r \<Rightarrow>
                 if truthy (field (isValidDetails r) ''isValid'')
                 then
                   (case userData r of
                      None \<Rightarrow>
                        (internal_error e
                           (TypeError ''Cannot read properties of undefined (reading 'userIdentifier')''), w1)
                    | Some ud \<Rightarrow>
                        (case policy_log e (newDate e (field (discloseOutput r) ''expiryDate''))
                                (field (discloseOutput r) ''issuingState'') w1 of
                           Inl err \<Rightarrow> (internal_error e err, w1)
                         | Inr w2 \<Rightarrow>
                             (\<lparr>status = 200, json = part3_success e r\<rparr>,
                              part3_best_effort e r (field body ''proof'') w2)))
                 else (\<lparr>status = 400, json = self_failure e r\<rparr>, w1)))"

subsection \<open>src/server.mjs, lines 119-214\<close>

text \<open>
  The module imports \<^verbatim>\<open>saveVerification\<close> and \<^verbatim>\<open>checkAttestationExists\<close> only, so the
  call \<^verbatim>\<open>saveSelfCheck(...)\<close> of the inner \<^verbatim>\<open>try\<close> block throws a ReferenceError, which the
  inner \<^verbatim>\<open>catch\<close> drops: the block leaves the world as it is.
\<close>

definition server_best_effort :: "env \<Rightarrow> self_result \<Rightarrow> jsval \<Rightarrow> world \<Rightarrow> world" where
  "server_best_effort e r proof w = w"

definition server_success :: "env \<Rightarrow> self_result \<Rightarrow> int \<Rightarrow> jsval" where
  "server_success e r expiryDate =
     JObj [(''status'', JStr ''success''),
           (''message'', JStr ''Verification completed''),
           (''userIdentifier'', opt_field (userData r) ''userIdentifier''),
           (''expiry'', JObj [(''date'', JStr (toISOString e expiryDate)),
                              (''hasOneYearValidity'', JBool (isExpiryValid e (Some expiryDate)))]),
           (''issuingCountry'', field (discloseOutput r) ''issuingState''),
           (''isCountryAllowed'', JBool (isCountryAllowed (field (discloseOutput r) ''issuingState''))),
           (''timestamp'', JStr (toISOString e (now e)))]"

text \<open>
  The response reads \<^verbatim>\<open>expiryDate.toISOString()\<close> again; once the log line has passed the
  date is valid, so the second test of the date never fails.
\<close>

definition server_verify :: "env \<Rightarrow> object \<Rightarrow> world \<Rightarrow> http_response \<times> world" where
  "server_verify e body w =
     (case selfBackendVerifier e of
        None \<Rightarrow> (internal_error e (Error ''Self Backend Verifier not initialized''), w)
      | Some verify \<Rightarrow>
          if self_missing body
          then (\<lparr>status = 400,
                  json = JObj [(''status'', JStr ''error''),
                               (''message'', JStr ''Proof, publicSignals, attestationId, userContextData, and cosmosAddress are required'')]\<rparr>,
                w)
          else
            (let w1 = self_called body w in
             case verify (field body ''attestationId'') (field body ''proof'')
                    (field body ''publicSignals'') (field body ''userContextData'') of
               Inl err \<Rightarrow> (internal_error e err, w1)
             | Inr r \<Rightarrow>
                 if truthy (field (isValidDetails r) ''isValid'')
                 then
                   (case policy_log e (newDate e (field (discloseOutput r) ''expiryDate''))
                           (field (discloseOutput r) ''issuingState'') w1 of
                      Inl err \<Rightarrow> (internal_error e err, w1)
                    | Inr w2 \<Rightarrow>
                        (case newDate e (field (discloseOutput r) ''expiryDate'') of
                           None \<Rightarrow> (internal_error e (RangeError ''Invalid time value''), w2)
                         | Some expiryDate \<Rightarrow>
                             (\<lparr>status = 200, json = server_success e r expiryDate\<rparr>,
                              server_best_effort e r (field body ''proof'') w2)))
                 else (\<lparr>status = 400, json = self_failure e r\<rparr>, w1)))"

subsection \<open>src/unnamed/part_002, lines 95-168\<close>

text \<open>The first version of the endpoint: no policy check, no store, and 500 on a rejected proof.\<close>

definition part2_verify :: "env \<Rightarrow> object \<Rightarrow> world \<Rightarrow> http_response \<times> world" where
  "part2_verify e body w =
     (case selfBackendVerifier e of
        None \<Rightarrow> (internal_error e (Error ''Self Backend Verifier not initialized''), w)
      | Some verify \<Rightarrow>
          if self_missing body
          then (\<lparr>status = 400,
                  json = JObj [(''message'', JStr ''Proof, publicSignals, attestationId and userContextData are required'')]\<rparr>,
                w)
          else
            (let w1 = self_called body w in
             case verify (field body ''attestationId'') (field body ''proof'')
                    (field body ''publicSignals'') (field body ''userContextData'') of
               Inl err \<Rightarrow> (internal_error e err, w1)
             | Inr r \<Rightarrow>
                 if truthy (field (isValidDetails r) ''isValid'')
                 then (\<lparr>status = 200,
                         json = JObj [(''status'', JStr ''success''),
                                      (''result'', JBool True),
                                      (''credentialSubject'', JObj (discloseOutput r)),
                                      (''timestamp'', JStr (toISOString e (now e))),
                                      (''attestationId'', field body ''attestationId'')]\<rparr>,
                       w1)
                 else (\<lparr>status = 500, json = self_failure e r\<rparr>, w1)))"

section \<open>POST /api/verify/self\<close>

text \<open>
  The handler; \<open>not_found\<close> evaluates the object literal of the 404 response, the one
  place where the two variants differ.
\<close>

definition self_binding_handler ::
  "(env \<Rightarrow> jsval \<Rightarrow> js_error + jsval) \<Rightarrow> env \<Rightarrow> object \<Rightarrow> world \<Rightarrow> http_response \<times> world" where
  "self_binding_handler not_found e body w =
     (let cosmosAddress = field body ''cosmosAddress'';
          uuid = field body ''uuid''
      in if \<not> truthy cosmosAddress \<or> \<not> truthy uuid
         then (\<lparr>status = 400,
                 json = JObj [(''status'', JStr ''error''),
                              (''message'', JStr ''cosmosAddress and attestationId are required''),
                              (''timestamp'', JStr (toISOString e (now e)))]\<rparr>, w)
         else
           (case checkAttestationExists e uuid w of
              (Inl err, w1) \<Rightarrow> (internal_error e err, w1)
            | (Inr attestationExists, w1) \<Rightarrow>
                if \<not> attestationExists
                then (case not_found e uuid of
                        Inl err \<Rightarrow> (internal_error e err, w1)
                      | Inr obj \<Rightarrow> (\<lparr>status = 404, json = obj\<rparr>, w1))
                else
                  (case saveVerification e uuid cosmosAddress (JStr ''self'') w1 of
                     (Inl err, w2) \<Rightarrow> (internal_error e err, w2)
                   | (Inr savedRecord, w2) \<Rightarrow>
                       (\<lparr>status = 200,
                         json = JObj [(''status'', JStr ''success''),
                                      (''message'', JStr ''Verification data saved successfully''),
                                      (''data'', savedRecord),
                                      (''timestamp'', JStr (toISOString e (now e)))]\<rparr>, w2))))"

text \<open>src/unnamed/part_003, lines 260-312: the 404 body carries \<^verbatim>\<open>uuid\<close>.\<close>

definition part3_not_found :: "env \<Rightarrow> jsval \<Rightarrow> js_error + jsval" where
  "part3_not_found e uuid =
     Inr (JObj [(''status'', JStr ''error''),
                (''message'', JStr ''Attestation ID not found in selfcheck table''),
                (''uuid'', uuid),
                (''timestamp'', JStr (toISOString e (now e)))])"

definition part3_verify_self :: "env \<Rightarrow> object \<Rightarrow> world \<Rightarrow> http_response \<times> world" where
  "part3_verify_self = self_binding_handler part3_not_found"

text \<open>
  src/server.mjs, lines 216-268: the 404 body reads the shorthand property
  \<^verbatim>\<open>attestationId\<close>, a name the handler never binds (it destructures \<^verbatim>\<open>cosmosAddress\<close> and
  \<^verbatim>\<open>uuid\<close>), so evaluating the object literal throws a ReferenceError and the handler's
  \<^verbatim>\<open>catch\<close> answers 500.
\<close>

definition server_not_found :: "env \<Rightarrow> jsval \<Rightarrow> js_error + jsval" where
  "server_not_found e uuid = Inl (ReferenceError ''attestationId is not defined'')"

definition server_verify_self :: "env \<Rightarrow> object \<Rightarrow> world \<Rightarrow> http_response \<times> world" where
  "server_verify_self = self_binding_handler server_not_found"

section \<open>verifySignature (cosmosVerify.mjs, at the end of src/server.mjs)\<close>

definition is_base64_char :: "char \<Rightarrow> bool" where
  "is_base64_char c =
     (let n = (of_char c :: nat) in
      (65 \<le> n \<and> n \<le> 90) \<or> (97 \<le> n \<and> n \<le> 122) \<or> (48 \<le> n \<and> n \<le> 57) \<or> n = 43 \<or> n = 47)"

text \<open>
  The test of \<^verbatim>\<open>/^[A-Za-z0-9+/]+={0,2}$/\<close>: one or more characters of the alphabet, then
  at most two \<^verbatim>\<open>=\<close>, then the end of the string.
\<close>

definition base64_regex :: "string \<Rightarrow> bool" where
  "base64_regex s =
     (let pad = dropWhile is_base64_char s in
      takeWhile is_base64_char s \<noteq> [] \<and> (pad = [] \<or> pad = ''='' \<or> pad = ''==''))"

text \<open>
  \<^verbatim>\<open>assertBase64(name, b64)\<close>; it returns nothing, the model hands back the string it
  accepted. (\<^verbatim>\<open>b64.length\<close> counts UTF-16 units and \<open>length\<close> bytes; the two differ only on
  a string with a character outside ASCII, which the pattern refuses anyway.)
\<close>

definition assertBase64 :: "string \<Rightarrow> jsval \<Rightarrow> js_error + string" where
  "assertBase64 name b64 =
     (case b64 of
        JStr s \<Rightarrow>
          (if length s mod 4 \<noteq> 0 \<or> \<not> base64_regex s
           then Inl (Error (name @ '' is not valid base64''))
           else Inr s)
      | other \<Rightarrow> Inl (Error (name @ '' is not valid base64'')))"

definition base64_val :: "char \<Rightarrow> nat" where
  "base64_val c =
     (let n = (of_char c :: nat) in
      if 65 \<le> n \<and> n \<le> 90 then n - 65
      else if 97 \<le> n \<and> n \<le> 122 then n - 71
      else if 48 \<le> n \<and> n \<le> 57 then n + 4
      else if n = 43 then 62
      else 63)"

text \<open>Four characters carry three bytes; a tail of three carries two, a tail of two one.\<close>

fun base64_bytes :: "nat list \<Rightarrow> nat list" where
  "base64_bytes (a # b # c # d # rest) =
     (4 * a + b div 16) # (16 * (b mod 16) + c div 4) # (64 * (c mod 4) + d) # base64_bytes rest"
| "base64_bytes [a, b, c] = [4 * a + b div 16, 16 * (b mod 16) + c div 4]"
| "base64_bytes [a, b] = [4 * a + b div 16]"
| "base64_bytes rest = []"

text \<open>\<^verbatim>\<open>Buffer.from(s, "base64")\<close> on a string \<^verbatim>\<open>assertBase64\<close> accepted.\<close>

definition base64_decode :: "string \<Rightarrow> nat list" where
  "base64_decode s = base64_bytes (map base64_val (takeWhile is_base64_char s))"

text \<open>The digits of a number in a template string.\<close>

fun show_nat :: "nat \<Rightarrow> string" where
  "show_nat n =
     (if n < 10 then [char_of (48 + n)] else show_nat (n div 10) @ [char_of (48 + n mod 10)])"

declare show_nat.simps [simp del]

text \<open>
  The two library functions the utility calls: \<^verbatim>\<open>toAscii\<close> of @cosmjs/encoding and
  \<^verbatim>\<open>verifyADR36Amino\<close> of @keplr-wallet/cosmos. Either may throw.
\<close>

record libs =
  toAscii :: "string \<Rightarrow> js_error + nat list"
  verifyADR36Amino ::
    "string \<Rightarrow> string \<Rightarrow> nat list \<Rightarrow> nat list \<Rightarrow> nat list \<Rightarrow> string \<Rightarrow> js_error + bool"

record sig_result =
  ok :: bool
  error :: "string option"

text \<open>\<^verbatim>\<open>bech32Address.split("1")[0] || "cosmos"\<close>\<close>

definition hrp_of :: "string \<Rightarrow> string" where
  "hrp_of bech32Address =
     (let h = takeWhile (\<lambda>c. c \<noteq> CHR ''1'') bech32Address in if h = [] then ''cosmos'' else h)"

text \<open>The body of the \<^verbatim>\<open>try\<close>: \<open>Inl\<close> is what it throws, \<open>Inr\<close> the value of \<^verbatim>\<open>ok\<close>.\<close>

definition verifySignature_try :: "libs \<Rightarrow> jsval \<Rightarrow> jsval \<Rightarrow> jsval \<Rightarrow> jsval \<Rightarrow> js_error + bool" where
  "verifySignature_try l bech32Address signatureB64 pubkeyB64 messageString =
     (case bech32Address of
        JStr addr \<Rightarrow>
          (case messageString of
             JStr msg \<Rightarrow>
               (case assertBase64 ''signatureB64'' signatureB64 of
                  Inl err \<Rightarrow> Inl err
                | Inr sig64 \<Rightarrow>
                    (case assertBase64 ''pubkeyB64'' pubkeyB64 of
                       Inl err \<Rightarrow> Inl err
                     | Inr pub64 \<Rightarrow>
                         (let pubKey = base64_decode pub64;
                              signature = base64_decode sig64
                          in case toAscii l msg of
                               Inl err \<Rightarrow> Inl err
                             | Inr messageBytes \<Rightarrow>
                                 if length pubKey \<noteq> 33
                                 then Inl (Error (''pubkey must be 33 bytes (compressed secp256k1). Got ''
                                                  @ show_nat (length pubKey)))
                                 else if length signature \<noteq> 64
                                 then Inl (Error (''signature must be 64 bytes (r||s). Got ''
                                                  @ show_nat (length signature)))
                                 else verifyADR36Amino l (hrp_of addr) addr messageBytes pubKey
                                        signature ''secp256k1'')))
           | other \<Rightarrow> Inl (Error ''messageString must be a string''))
      | other \<Rightarrow> Inl (Error ''bech32Address must be a string''))"

text \<open>\<^verbatim>\<open>String(err)\<close> for an error whose message is empty is the name of its class.\<close>

fun error_name :: "js_error \<Rightarrow> string" where
  "error_name (Error m) = ''Error''"
| "error_name (TypeError m) = ''TypeError''"
| "error_name (ReferenceError m) = ''ReferenceError''"
| "error_name (RangeError m) = ''RangeError''"

text \<open>
  The function with its \<^verbatim>\<open>try\<close>/\<^verbatim>\<open>catch\<close>. The result is a completion: \<open>Inr\<close> a returned
  object, \<open>Inl\<close> an error that leaves the function.
\<close>

definition verifySignature ::
  "libs \<Rightarrow> jsval \<Rightarrow> jsval \<Rightarrow> jsval \<Rightarrow> jsval \<Rightarrow> js_error + sig_result" where
  "verifySignature l bech32Address signatureB64 pubkeyB64 messageString =
     (case verifySignature_try l bech32Address signatureB64 pubkeyB64 messageString of
        Inr b \<Rightarrow> Inr \<lparr>ok = b, error = None\<rparr>
      | Inl err \<Rightarrow>
          Inr \<lparr>ok = False,
               error = Some (if message err \<noteq> [] then message err else error_name err)\<rparr>)"

section \<open>The vocabulary of the statements\<close>

text \<open>
  The identifiers of the data model: a string, or absent (\<^verbatim>\<open>undefined\<close>), or \<^verbatim>\<open>null\<close>. On
  these \<^verbatim>\<open>==\<close> converts nothing.
\<close>

fun is_ident :: "jsval \<Rightarrow> bool" where
  "is_ident JUndefined = True"
| "is_ident JNull = True"
| "is_ident (JStr s) = True"
| "is_ident v = False"

definition same_ident :: "jsval \<Rightarrow> jsval \<Rightarrow> bool" where
  "same_ident a b = ((nullish a \<and> nullish b) \<or> (typeof a = TString \<and> a = b))"

text \<open>The world in which the inner \<^verbatim>\<open>try\<close> block of the handler starts.\<close>

definition policy_logged :: "env \<Rightarrow> self_result \<Rightarrow> int \<Rightarrow> object \<Rightarrow> world \<Rightarrow> world" where
  "policy_logged e r t body w =
     (self_called body w)
       \<lparr>console := console w @ policy_lines e t (field (discloseOutput r) ''issuingState'')\<rparr>"

section \<open>Concrete scenarios\<close>

text \<open>
  The requests, verifier results, environments and stores at which the statements below
  are evaluated.
\<close>

definition empty_world :: world where
  "empty_world = \<lparr>zkpass = [], selfcheck = [], calls = [], console = []\<rparr>"

definition demo_newDate :: "jsval \<Rightarrow> int option" where
  "demo_newDate v = (if v = JStr ''2031-01-01'' then Some 1924992000000 else None)"

definition demo_self_result :: self_result where
  "demo_self_result =
     \<lparr>isValidDetails = [(''isValid'', JBool True)],
      discloseOutput = [(''expiryDate'', JStr ''2031-01-01''), (''issuingState'', JStr ''USA'')],
      userData = Some [(''userIdentifier'', JStr ''u1''),
                       (''userDefinedData'', JStr ''7477696c6967687431616263'')]\<rparr>"

definition demo_verify :: "jsval \<Rightarrow> jsval \<Rightarrow> jsval \<Rightarrow> jsval \<Rightarrow> js_error + self_result" where
  "demo_verify attestationId proof publicSignals userContextData = Inr demo_self_result"

definition demo_zk_result :: zk_result where
  "demo_zk_result =
     \<lparr>verified = JBool True, uniqueIdentifier = JStr ''abc'', queryResultErrors = JUndefined\<rparr>"

definition demo_env :: env where
  "demo_env =
     \<lparr>now = 1700000000000,
      LocalTZA = (\<lambda>t u. 0),
      newDate = demo_newDate,
      toISOString = (\<lambda>t. ''2023-11-14T22:13:20.000Z''),
      selfBackendVerifier = Some demo_verify,
      zk_verify = (\<lambda>proofs qr scope devMode. Inr demo_zk_result),
      query_error = (\<lambda>w q. None),
      coerced_eq = (\<lambda>a b. Inr False),
      Buffer_from_object = (\<lambda>v. Inl (TypeError ''not a buffer''))\<rparr>"

definition zk_body_no_uid :: object where
  "zk_body_no_uid = [(''proofs'', JArr [JStr ''p'']), (''queryResult'', JObj []), (''scope'', JStr ''s'')]"

definition zk_body_abc :: object where
  "zk_body_abc = [(''proofs'', JArr [JStr ''p'']), (''queryResult'', JObj []), (''scope'', JStr ''s''),
                  (''uniqueIdentifier'', JStr ''abc'')]"

definition zk_body_wallet :: object where
  "zk_body_wallet = [(''proofs'', JArr [JStr ''p'']), (''queryResult'', JObj []), (''scope'', JStr ''s''),
                     (''uniqueIdentifier'', JStr ''abc''), (''cosmosAddress'', JStr ''twilight1abc'')]"

definition binding_body :: object where
  "binding_body = [(''cosmosAddress'', JStr ''twilight1abc''), (''uuid'', JStr ''u1'')]"

definition audited_world :: world where
  "audited_world = \<lparr>zkpass = [], selfcheck = [(JStr ''u1'', JObj [])], calls = [], console = []\<rparr>"

definition self_body :: object where
  "self_body = [(''attestationId'', JNum 1), (''proof'', JObj [(''a'', JArr [])]),
                (''publicSignals'', JArr [JStr ''1'']), (''userContextData'', JStr ''00'')]"

definition cosmos_self_result :: self_result where
  "cosmos_self_result =
     \<lparr>isValidDetails = [(''isValid'', JBool True)],
      discloseOutput = [(''expiryDate'', JStr ''2024-01-01''), (''issuingState'', JStr ''FRA'')],
      userData = Some [(''userIdentifier'', JStr ''u1''),
                       (''userDefinedData'', JStr ''636f736d6f7331616263'')]\<rparr>"

definition cosmos_newDate :: "jsval \<Rightarrow> int option" where
  "cosmos_newDate v = (if v = JStr ''2024-01-01'' then Some 1704067200000 else None)"

definition cosmos_verify :: "jsval \<Rightarrow> jsval \<Rightarrow> jsval \<Rightarrow> jsval \<Rightarrow> js_error + self_result" where
  "cosmos_verify attestationId proof publicSignals userContextData = Inr cosmos_self_result"

definition cosmos_env :: env where
  "cosmos_env =
     demo_env\<lparr>newDate := cosmos_newDate,
              selfBackendVerifier := Some cosmos_verify\<rparr>"

definition down_env :: env where
  "down_env = demo_env\<lparr>selfBackendVerifier := None\<rparr>"

definition reject_self_result :: self_result where
  "reject_self_result =
     \<lparr>isValidDetails = [(''isValid'', JBool False)], discloseOutput = [], userData = None\<rparr>"

definition reject_verify :: "jsval \<Rightarrow> jsval \<Rightarrow> jsval \<Rightarrow> jsval \<Rightarrow> js_error + self_result" where
  "reject_verify attestationId proof publicSignals userContextData = Inr reject_self_result"

definition reject_zk_result :: zk_result where
  "reject_zk_result =
     \<lparr>verified = JBool False, uniqueIdentifier = JUndefined, queryResultErrors = JObj []\<rparr>"

definition reject_env :: env where
  "reject_env =
     demo_env\<lparr>selfBackendVerifier := Some reject_verify,
              zk_verify := (\<lambda>proofs qr scope devMode. Inr reject_zk_result)\<rparr>"

definition empty_signals_body :: object where
  "empty_signals_body = [(''attestationId'', JNum 1), (''proof'', JObj [(''a'', JArr [])]),
                         (''publicSignals'', JArr []), (''userContextData'', JStr ''00'')]"

definition empty_attestation_body :: object where
  "empty_attestation_body = [(''attestationId'', JStr []), (''proof'', JObj [(''a'', JArr [])]),
                             (''publicSignals'', JArr [JStr ''1'']), (''userContextData'', JStr ''00'')]"

definition undisclosed_self_result :: self_result where
  "undisclosed_self_result =
     \<lparr>isValidDetails = [(''isValid'', JBool True)],
      discloseOutput = [(''issuingState'', JStr ''USA'')],
      userData = Some [(''userIdentifier'', JStr ''u1''),
                       (''userDefinedData'', JStr ''7477696c6967687431616263'')]\<rparr>"

definition undisclosed_verify :: "jsval \<Rightarrow> jsval \<Rightarrow> jsval \<Rightarrow> jsval \<Rightarrow> js_error + self_result" where
  "undisclosed_verify attestationId proof publicSignals userContextData = Inr undisclosed_self_result"

definition undisclosed_env :: env where
  "undisclosed_env = demo_env\<lparr>selfBackendVerifier := Some undisclosed_verify\<rparr>"

definition db_down_env :: env where
  "db_down_env = demo_env\<lparr>query_error := (\<lambda>w q. Some (Error ''connection refused''))\<rparr>"

definition printable_toAscii :: "string \<Rightarrow> js_error + nat list" where
  "printable_toAscii s =
     (if list_all (\<lambda>c. 32 \<le> (of_char c :: nat) \<and> (of_char c :: nat) \<le> 126) s
      then Inr (map of_char s)
      else Inl (Error ''Cannot encode character that is out of printable ASCII range''))"

definition demo_libs :: libs where
  "demo_libs =
     \<lparr>toAscii = printable_toAscii,
      verifyADR36Amino = (\<lambda>hrp address message pubKey signature algo. Inr False)\<rparr>"

definition pubkey_33 :: string where
  "pubkey_33 = replicate 44 CHR ''A''"

definition signature_65 :: string where
  "signature_65 = replicate 87 CHR ''A'' @ ''=''"

section \<open>The length of a year\<close>

lemma div_succ:
  fixes a n :: int
  assumes n: "0 < n"
  shows "(a + 1) div n = a div n + (if (a + 1) mod n = 0 then 1 else 0)"
proof (cases "a mod n + 1 < n")
  case True
  have eq: "a + 1 = n * (a div n) + (a mod n + 1)"
    by simp
  have nonneg: "0 \<le> a mod n + 1"
    using n pos_mod_sign [of n a] by linarith
  have d: "(a + 1) div n = a div n"
    using eq nonneg True by (rule int_div_pos_eq)
  have m: "(a + 1) mod n = a mod n + 1"
    using eq nonneg True by (rule int_mod_pos_eq)
  have "a mod n + 1 \<noteq> 0"
    using n pos_mod_sign [of n a] by linarith
  with d m show ?thesis
    by simp
next
  case False
  with n pos_mod_bound [of n a] have r: "a mod n = n - 1"
    by linarith
  have "a + 1 = n * (a div n) + (a mod n + 1)"
    by simp
  also have "\<dots> = n * (a div n + 1) + 0"
    using r by (simp add: algebra_simps)
  finally have eq: "a + 1 = n * (a div n + 1) + 0" .
  have d: "(a + 1) div n = a div n + 1"
    using eq _ n by (rule int_div_pos_eq) simp
  have m: "(a + 1) mod n = 0"
    using eq _ n by (rule int_mod_pos_eq) simp
  from d m show ?thesis
    by simp
qed

lemma mod_shift: "((y::int) - k * n) mod n = y mod n"
  by (metis diff_conv_add_uminus mod_mult_self1 mult_minus_left)

lemma leap_count_step:
  fixes y :: int
  assumes n: "0 < n" and k: "c = k * n + 1"
  shows "(y + 1 - c) div n = (y - c) div n + (if y mod n = 0 then 1 else 0)"
proof -
  have e1: "y + 1 - c = (y - c) + 1"
    by simp
  have "(y - c) + 1 = y - k * n"
    using k by linarith
  then have "((y - c) + 1) mod n = y mod n"
    by (simp only: mod_shift)
  with div_succ [OF n, of "y - c"] show ?thesis
    unfolding e1 by simp
qed

lemma DayFromYear_step: "DayFromYear (y + 1) = DayFromYear y + DaysInYear y"
proof -
  have a: "(y + 1 - 1969) div 4 = (y - 1969) div 4 + (if y mod 4 = 0 then 1 else 0)"
    by (rule leap_count_step [where k = 492]) simp_all
  have b: "(y + 1 - 1901) div 100 = (y - 1901) div 100 + (if y mod 100 = 0 then 1 else 0)"
    by (rule leap_count_step [where k = 19]) simp_all
  have c: "(y + 1 - 1601) div 400 = (y - 1601) div 400 + (if y mod 400 = 0 then 1 else 0)"
    by (rule leap_count_step [where k = 4]) simp_all
  have d1: "y mod 100 = 0 \<Longrightarrow> y mod 4 = 0"
    using mod_mod_cancel [of 4 100 y] by simp
  have d2: "y mod 400 = 0 \<Longrightarrow> y mod 100 = 0"
    using mod_mod_cancel [of 100 400 y] by simp
  have "DayFromYear (y + 1) = 365 * (y - 1970) + 365 + (y + 1 - 1969) div 4 - (y + 1 - 1901) div 100 + (y + 1 - 1601) div 400"
    unfolding DayFromYear_def by simp
  also have "\<dots> = DayFromYear y + (365 + (if y mod 4 = 0 then 1 else 0) - (if y mod 100 = 0 then 1 else 0) + (if y mod 400 = 0 then 1 else 0))"
    unfolding DayFromYear_def a b c by simp
  also have "365 + (if y mod 4 = 0 then 1 else 0) - (if y mod 100 = 0 then 1 else 0) + (if y mod 400 = 0 then 1 else (0::int)) = DaysInYear y"
    unfolding DaysInYear_def using d1 d2 by simp
  finally show ?thesis .
qed

lemma DaysInYear_range: "DaysInYear y = 365 \<or> DaysInYear y = 366"
  by (simp add: DaysInYear_def)

text \<open>
  \<open>YearFromDay\<close> is the year of the language standard: the largest \<open>y\<close> whose first day is
  not after \<open>d\<close>.
\<close>

lemma DayFromYear_1970: "DayFromYear 1970 = 0"
  by (simp add: DayFromYear_def)

lemma DayFromYear_after: "DayFromYear (1970 + int n) \<le> 366 * int n"
proof (induction n)
  case 0
  show ?case by (simp add: DayFromYear_1970)
next
  case (Suc n)
  have "DayFromYear (1970 + int (Suc n)) = DayFromYear (1970 + int n) + DaysInYear (1970 + int n)"
    using DayFromYear_step [of "1970 + int n"] by (simp add: algebra_simps)
  with Suc DaysInYear_range [of "1970 + int n"] show ?case
    by auto
qed

lemma DayFromYear_before: "DayFromYear (1970 - int n) \<le> - (365 * int n)"
proof (induction n)
  case 0
  show ?case by (simp add: DayFromYear_1970)
next
  case (Suc n)
  have "DayFromYear (1970 - int n) = DayFromYear (1970 - int (Suc n)) + DaysInYear (1970 - int (Suc n))"
    using DayFromYear_step [of "1970 - int (Suc n)"] by (simp add: algebra_simps)
  with Suc DaysInYear_range [of "1970 - int (Suc n)"] show ?case
    by auto
qed

lemma year_search_spec:
  "DayFromYear y \<le> d \<Longrightarrow>
     DayFromYear (year_search y d) \<le> d \<and> d < DayFromYear (year_search y d + 1)"
proof (induction y d rule: year_search.induct)
  case (1 y d)
  show ?case
  proof (cases "DayFromYear (y + 1) \<le> d")
    case True
    with "1.IH" show ?thesis
      by (simp add: year_search.simps [of y d])
  next
    case False
    with "1.prems" show ?thesis
      by (simp add: year_search.simps [of y d])
  qed
qed

lemma YearFromDay_start:
  "DayFromYear (1970 + (if 0 \<le> d then d div 366 else d div 365)) \<le> d"
proof (cases "0 \<le> d")
  case True
  then have "0 \<le> d div 366"
    by simp
  then obtain n where n: "d div 366 = int n"
    using nonneg_int_cases by blast
  have "366 * (d div 366) \<le> d"
    using True by (simp add: minus_mod_eq_mult_div [symmetric])
  with DayFromYear_after [of n] n True show ?thesis
    by simp
next
  case False
  then have "d div 365 \<le> 0"
    using div_neg_pos_less0 [of d 365] by simp
  then obtain n where n: "d div 365 = - int n"
    by (metis nonpos_int_cases)
  have "365 * (d div 365) \<le> d"
    by (simp add: minus_mod_eq_mult_div [symmetric])
  with DayFromYear_before [of n] n False show ?thesis
    by simp
qed

lemma YearFromDay_spec:
  "DayFromYear (YearFromDay d) \<le> d \<and> d < DayFromYear (YearFromDay d + 1)"
  unfolding YearFromDay_def by (rule year_search_spec [OF YearFromDay_start])

lemma DayFromYear_mono: "y \<le> y' \<Longrightarrow> DayFromYear y \<le> DayFromYear y'"
proof -
  have "DayFromYear y \<le> DayFromYear (y + int n)" for n
  proof (induction n)
    case 0
    show ?case by simp
  next
    case (Suc n)
    have "DayFromYear (y + int (Suc n)) = DayFromYear (y + int n) + DaysInYear (y + int n)"
      using DayFromYear_step [of "y + int n"] by (simp add: algebra_simps)
    with Suc DaysInYear_range [of "y + int n"] show ?case
      by auto
  qed
  moreover assume "y \<le> y'"
  then obtain n where "y' = y + int n"
    by (metis zle_iff_zadd)
  ultimately show ?thesis
    by simp
qed

lemma YearFromDay_largest:
  "DayFromYear y \<le> d \<longleftrightarrow> y \<le> YearFromDay d"
proof
  assume le: "DayFromYear y \<le> d"
  show "y \<le> YearFromDay d"
  proof (rule ccontr)
    assume "\<not> y \<le> YearFromDay d"
    then have "YearFromDay d + 1 \<le> y"
      by simp
    then have "DayFromYear (YearFromDay d + 1) \<le> DayFromYear y"
      by (rule DayFromYear_mono)
    with le YearFromDay_spec [of d] show False
      by simp
  qed
next
  assume "y \<le> YearFromDay d"
  then have "DayFromYear y \<le> DayFromYear (YearFromDay d)"
    by (rule DayFromYear_mono)
  with YearFromDay_spec [of d] show "DayFromYear y \<le> d"
    by simp
qed

section \<open>Identifier reconciliation in POST /api/verify/zkpass\<close>

lemma loose_eq_ident:
  "is_ident a \<Longrightarrow> is_ident b \<Longrightarrow> loose_eq e a b = Inr (same_ident a b)"
  by (cases a; cases b) (simp_all add: loose_eq_def same_ident_def)

lemma loose_eq_true: "loose_eq e (JBool v) (JBool True) = Inr v"
  by (simp add: loose_eq_def)

lemma zkpass_gate_ident:
  "is_ident s \<Longrightarrow> is_ident c \<Longrightarrow> zkpass_gate e s c (JBool v) = Inr (same_ident s c \<and> v)"
  by (simp add: zkpass_gate_def loose_eq_ident loose_eq_true)

lemma pool_query_zkpass:
  "zkpass (snd (pool_query e (InsertZkpass a u p) w)) =
     (if query_error e w (InsertZkpass a u p) = None then zkpass w @ [(a, u, p)] else zkpass w)"
  by (simp add: pool_query_def Let_def split: option.splits)

lemma saveVerification_zkpass:
  "zkpass (snd (saveVerification e u a p w)) =
     (if query_error e w (InsertZkpass a u p) = None then zkpass w @ [(a, u, p)] else zkpass w)"
proof -
  have "snd (saveVerification e u a p w) = snd (pool_query e (InsertZkpass a u p) w)"
    by (simp add: saveVerification_def split: prod.splits sum.splits)
  then show ?thesis
    by (simp only: pool_query_zkpass)
qed

lemma zkpass_called_rows [simp]:
  "zkpass (zkpass_called body w) = zkpass w" "selfcheck (zkpass_called body w) = selfcheck w"
  by (simp_all add: zkpass_called_def)

lemma zkpass_handler_world:
  assumes "\<not> zkpass_missing body"
    and "zk_verify e (field body ''proofs'') (zkpass_qr body) (field body ''scope'')
           (devMode_or_true (field body ''devMode'')) = Inr r"
    and "zkpass_gate e (uniqueIdentifier r) (field body ''uniqueIdentifier'') (verified r) = Inr g"
  shows "snd (zkpass_handler provider respond e body w) =
           (if g then snd (saveVerification e (js_or (field body ''uniqueIdentifier'') (uniqueIdentifier r))
                             (nullish_or (field body ''cosmosAddress'') JNull) provider
                             (zkpass_called body w))
            else zkpass_called body w)"
  using assms by (simp add: zkpass_handler_def Let_def split: sum.splits)

text \<open>
  C1, as amended. For a request that passes the validation, a verifier result with a
  boolean \<open>verified\<close>, and identifiers that are strings or absent or null: the handler
  appends a row to table zkpass exactly when \<open>verified\<close> is true, the server identifier and
  the client identifier are equal under \<^verbatim>\<open>==\<close> (the same string, or both absent or null),
  and the database accepts the insert; otherwise the table is unchanged. So with no client
  identifier and a server identifier that is a string nothing is persisted.
\<close>

theorem zkpass_persistence_gate:
  assumes "\<not> zkpass_missing body"
    and "zk_verify e (field body ''proofs'') (zkpass_qr body) (field body ''scope'')
           (devMode_or_true (field body ''devMode'')) = Inr r"
    and "verified r = JBool v"
    and "is_ident (uniqueIdentifier r)"
    and "is_ident (field body ''uniqueIdentifier'')"
  shows "zkpass (snd (part3_verify_zkpass e body w)) =
           (if v \<and> same_ident (uniqueIdentifier r) (field body ''uniqueIdentifier'') \<and>
               query_error e (zkpass_called body w)
                 (InsertZkpass (nullish_or (field body ''cosmosAddress'') JNull)
                    (js_or (field body ''uniqueIdentifier'') (uniqueIdentifier r)) (JStr ''zkpass'')) = None
            then zkpass w @ [(nullish_or (field body ''cosmosAddress'') JNull,
                              js_or (field body ''uniqueIdentifier'') (uniqueIdentifier r),
                              JStr ''zkpass'')]
            else zkpass w)"
proof -
  have gate: "zkpass_gate e (uniqueIdentifier r) (field body ''uniqueIdentifier'') (verified r) =
                Inr (same_ident (uniqueIdentifier r) (field body ''uniqueIdentifier'') \<and> v)"
    using assms(3-5) by (simp add: zkpass_gate_ident)
  show ?thesis
    unfolding part3_verify_zkpass_def zkpass_handler_world [OF assms(1,2) gate]
    by (auto simp: saveVerification_zkpass)
qed

lemmas zk_demo_defs =
  zkpass_missing_def zkpass_qr_def field_def nullish_or_def js_or_def devMode_or_true_def
  zk_body_no_uid_def zk_body_abc_def demo_env_def demo_zk_result_def empty_world_def
  zkpass_called_def same_ident_def

theorem zkpass_persistence_gate_witness:
  "\<not> zkpass_missing zk_body_abc \<and>
   zk_verify demo_env (field zk_body_abc ''proofs'') (zkpass_qr zk_body_abc) (field zk_body_abc ''scope'')
     (devMode_or_true (field zk_body_abc ''devMode'')) = Inr demo_zk_result \<and>
   verified demo_zk_result = JBool True \<and>
   is_ident (uniqueIdentifier demo_zk_result) \<and>
   is_ident (field zk_body_abc ''uniqueIdentifier'') \<and>
   zkpass (snd (part3_verify_zkpass demo_env zk_body_abc empty_world)) =
     [(JNull, JStr ''abc'', JStr ''zkpass'')]"
proof -
  have h1: "\<not> zkpass_missing zk_body_abc"
    by (simp add: zk_demo_defs)
  have h2: "zk_verify demo_env (field zk_body_abc ''proofs'') (zkpass_qr zk_body_abc)
              (field zk_body_abc ''scope'') (devMode_or_true (field zk_body_abc ''devMode'')) =
            Inr demo_zk_result"
    by (simp add: demo_env_def)
  have h3: "verified demo_zk_result = JBool True"
    by (simp add: demo_zk_result_def)
  have h4: "is_ident (uniqueIdentifier demo_zk_result)"
    by (simp add: demo_zk_result_def)
  have h5: "is_ident (field zk_body_abc ''uniqueIdentifier'')"
    by (simp add: zk_body_abc_def field_def)
  have "zkpass (snd (part3_verify_zkpass demo_env zk_body_abc empty_world)) =
          [(JNull, JStr ''abc'', JStr ''zkpass'')]"
    unfolding zkpass_persistence_gate [OF h1 h2 h3 h4 h5]
    by (simp add: zk_demo_defs)
  with h1 h2 h3 h4 h5 show ?thesis
    by simp
qed

text \<open>
  C1 as stated fails: the request carries no \<^verbatim>\<open>uniqueIdentifier\<close>, the verifier answers
  \<^verbatim>\<open>verified: true\<close> with the identifier \<^verbatim>\<open>"abc"\<close>, and the handler issues no SQL statement at
  all (\<^verbatim>\<open>"abc" == undefined\<close> is false).
\<close>

theorem zkpass_no_client_identifier_counterexample:
  "\<not> zkpass_missing zk_body_no_uid \<and>
   field zk_body_no_uid ''uniqueIdentifier'' = JUndefined \<and>
   zk_verify demo_env (field zk_body_no_uid ''proofs'') (zkpass_qr zk_body_no_uid)
     (field zk_body_no_uid ''scope'') (devMode_or_true (field zk_body_no_uid ''devMode'')) =
     Inr \<lparr>verified = JBool True, uniqueIdentifier = JStr ''abc'', queryResultErrors = JUndefined\<rparr> \<and>
   snd (part3_verify_zkpass demo_env zk_body_no_uid empty_world) =
     \<lparr>zkpass = [], selfcheck = [],
      calls = [ZkVerify (JArr [JStr ''p'']) (JObj []) (JStr ''s'') (JBool True)],
      console = []\<rparr>"
  by (simp add: zk_demo_defs part3_verify_zkpass_def zkpass_handler_def zkpass_gate_def loose_eq_def
      part3_respond_def)

section \<open>The response of POST /api/verify/zkpass\<close>

lemma server_zkpass_always_500:
  "\<not> zkpass_missing body \<Longrightarrow> fst (server_verify_zkpass e body w) = verification_failed"
  by (simp add: server_verify_zkpass_def zkpass_handler_def server_respond_def Let_def
      split: sum.splits)

lemma part3_zkpass_echoes_envelope:
  assumes "\<not> zkpass_missing body"
    and "zk_verify e (field body ''proofs'') (zkpass_qr body) (field body ''scope'')
           (devMode_or_true (field body ''devMode'')) = Inr r"
    and "zkpass_gate e (uniqueIdentifier r) (field body ''uniqueIdentifier'') (verified r) = Inr g"
  shows "fst (part3_verify_zkpass e body w) =
           \<lparr>status = 200,
            json = zkpass_envelope e (verified r) (field body ''uniqueIdentifier'') (uniqueIdentifier r)
                     (queryResultErrors r) (field body ''cosmosAddress'')\<rparr>"
  using assms
  by (simp add: part3_verify_zkpass_def zkpass_handler_def part3_respond_def Let_def)

text \<open>
  C3 holds for the handler of src/unnamed/part_003 (lemma \<open>part3_zkpass_echoes_envelope\<close>)
  and fails for the handler of src/server.mjs, whose response literal reads the unbound
  name \<^verbatim>\<open>address\<close>: on the same verified request the first answers 200 with the envelope
  and the second 500 with \<^verbatim>\<open>{error: "verification_failed"}\<close>.
\<close>

theorem server_zkpass_drops_envelope:
  "truthy (field zk_body_abc ''proofs'') \<and>
   truthy (zkpass_qr zk_body_abc) \<and>
   truthy (field zk_body_abc ''scope'') \<and>
   fst (server_verify_zkpass demo_env zk_body_abc empty_world) =
     \<lparr>status = 500, json = JObj [(''error'', JStr ''verification_failed'')]\<rparr> \<and>
   fst (part3_verify_zkpass demo_env zk_body_abc empty_world) =
     \<lparr>status = 200,
      json = JObj [(''status'', JStr ''success''), (''verified'', JBool True),
                   (''clientUID'', JStr ''abc''), (''serverUID'', JStr ''abc''),
                   (''match'', JBool True), (''queryResultErrors'', JUndefined),
                   (''address'', JNull), (''timestamp'', JStr ''2023-11-14T22:13:20.000Z'')]\<rparr>"
  by (simp add: zk_demo_defs server_verify_zkpass_def part3_verify_zkpass_def zkpass_handler_def
      zkpass_gate_def loose_eq_def server_respond_def part3_respond_def verification_failed_def
      zkpass_envelope_def strict_eq_def saveVerification_def pool_query_def Let_def)

section \<open>The store and the delegated binding (POST /api/verify/self)\<close>

lemma checkAttestationExists_result:
  "checkAttestationExists e uuid w =
     (case query_error e w (CountSelfcheck uuid) of
        Some err \<Rightarrow> (Inl err, w\<lparr>calls := calls w @ [Query (CountSelfcheck uuid)]\<rparr>)
      | None \<Rightarrow> (Inr (\<not> nullish uuid \<and> uuid \<in> fst ` set (selfcheck w)),
                 w\<lparr>calls := calls w @ [Query (CountSelfcheck uuid)]\<rparr>))"
proof -
  have "0 < length (filter (\<lambda>r. \<not> nullish uuid \<and> fst r = uuid) (selfcheck w)) \<longleftrightarrow>
          (\<not> nullish uuid \<and> uuid \<in> fst ` set (selfcheck w))"
    by (auto simp: filter_empty_conv image_iff)
  then show ?thesis
    by (simp add: checkAttestationExists_def pool_query_def Let_def field_def split: option.splits)
qed

lemma saveVerification_result:
  "saveVerification e u a p w =
     (case query_error e w (InsertZkpass a u p) of
        Some err \<Rightarrow> (Inl err, w\<lparr>calls := calls w @ [Query (InsertZkpass a u p)]\<rparr>)
      | None \<Rightarrow> (Inr (JObj (zkpass_row a u p)),
                 w\<lparr>calls := calls w @ [Query (InsertZkpass a u p)],
                   zkpass := zkpass w @ [(a, u, p)]\<rparr>))"
  by (simp add: saveVerification_def pool_query_def Let_def rows0_def split: option.splits)

lemma saveSelfCheck_result:
  "saveSelfCheck e a p w =
     (case query_error e w (InsertSelfcheck a p) of
        Some err \<Rightarrow> (Inl err, w\<lparr>calls := calls w @ [Query (InsertSelfcheck a p)]\<rparr>)
      | None \<Rightarrow> (Inr (JObj (selfcheck_row a p)),
                 w\<lparr>calls := calls w @ [Query (InsertSelfcheck a p)],
                   selfcheck := selfcheck w @ [(a, p)]\<rparr>))"
  by (simp add: saveSelfCheck_def pool_query_def Let_def rows0_def split: option.splits)

lemma binding_missing_field:
  assumes "\<not> truthy (field body ''cosmosAddress'') \<or> \<not> truthy (field body ''uuid'')"
  shows "status (fst (self_binding_handler nf e body w)) = 400"
    and "snd (self_binding_handler nf e body w) = w"
  using assms by (auto simp: self_binding_handler_def Let_def)

lemma part3_binding_not_found:
  assumes "truthy (field body ''cosmosAddress'')" and "truthy (field body ''uuid'')"
    and "query_error e w (CountSelfcheck (field body ''uuid'')) = None"
    and "field body ''uuid'' \<notin> fst ` set (selfcheck w)"
  shows "part3_verify_self e body w =
           (\<lparr>status = 404,
             json = JObj [(''status'', JStr ''error''),
                          (''message'', JStr ''Attestation ID not found in selfcheck table''),
                          (''uuid'', field body ''uuid''),
                          (''timestamp'', JStr (toISOString e (now e)))]\<rparr>,
            w\<lparr>calls := calls w @ [Query (CountSelfcheck (field body ''uuid''))]\<rparr>)"
  using assms
  by (simp add: part3_verify_self_def self_binding_handler_def Let_def checkAttestationExists_result
      part3_not_found_def)

lemma server_binding_not_found:
  assumes "truthy (field body ''cosmosAddress'')" and "truthy (field body ''uuid'')"
    and "query_error e w (CountSelfcheck (field body ''uuid'')) = None"
    and "field body ''uuid'' \<notin> fst ` set (selfcheck w)"
  shows "server_verify_self e body w =
           (internal_error e (ReferenceError ''attestationId is not defined''),
            w\<lparr>calls := calls w @ [Query (CountSelfcheck (field body ''uuid''))]\<rparr>)"
  using assms
  by (simp add: server_verify_self_def self_binding_handler_def Let_def checkAttestationExists_result
      server_not_found_def)

lemma truthy_not_nullish: "truthy v \<Longrightarrow> \<not> nullish v"
  by (cases v) simp_all

lemma binding_found:
  assumes "truthy (field body ''cosmosAddress'')" and "truthy (field body ''uuid'')"
    and "query_error e w (CountSelfcheck (field body ''uuid'')) = None"
    and "field body ''uuid'' \<in> fst ` set (selfcheck w)"
    and "query_error e (w\<lparr>calls := calls w @ [Query (CountSelfcheck (field body ''uuid''))]\<rparr>)
           (InsertZkpass (field body ''cosmosAddress'') (field body ''uuid'') (JStr ''self'')) = None"
  shows "status (fst (self_binding_handler nf e body w)) = 200"
    and "zkpass (snd (self_binding_handler nf e body w)) =
           zkpass w @ [(field body ''cosmosAddress'', field body ''uuid'', JStr ''self'')]"
    and "selfcheck (snd (self_binding_handler nf e body w)) = selfcheck w"
  using assms
  by (simp_all add: self_binding_handler_def Let_def checkAttestationExists_result
      saveVerification_result truthy_not_nullish)

text \<open>
  C4 holds for the handler of src/unnamed/part_003 (lemmas \<open>part3_binding_not_found\<close>
  and \<open>binding_found\<close>) and fails for the handler of src/server.mjs: with no audited
  submission for \<^verbatim>\<open>"u1"\<close> it answers 500, not 404, because the 404 body reads the unbound
  name \<^verbatim>\<open>attestationId\<close>. Nothing is written in either case.
\<close>

theorem server_binding_answers_500:
  "truthy (field binding_body ''cosmosAddress'') \<and>
   truthy (field binding_body ''uuid'') \<and>
   selfcheck empty_world = [] \<and>
   server_verify_self demo_env binding_body empty_world =
     (\<lparr>status = 500,
       json = JObj [(''status'', JStr ''error''),
                    (''message'', JStr ''attestationId is not defined''),
                    (''timestamp'', JStr ''2023-11-14T22:13:20.000Z'')]\<rparr>,
      \<lparr>zkpass = [], selfcheck = [], calls = [Query (CountSelfcheck (JStr ''u1''))], console = []\<rparr>) \<and>
   status (fst (part3_verify_self demo_env binding_body empty_world)) = 404"
  by (simp add: binding_body_def field_def empty_world_def demo_env_def server_verify_self_def
      part3_verify_self_def self_binding_handler_def checkAttestationExists_def pool_query_def
      server_not_found_def part3_not_found_def internal_error_def js_or_def Let_def)

section \<open>POST /api/verify: what each path does\<close>

lemma self_called_rows [simp]:
  "zkpass (self_called body w) = zkpass w" "selfcheck (self_called body w) = selfcheck w"
  "console (self_called body w) = console w"
  by (simp_all add: self_called_def)

lemma self_missing_unready:
  assumes "selfBackendVerifier e = None"
  shows "part3_verify e body w = (internal_error e (Error ''Self Backend Verifier not initialized''), w)"
    and "server_verify e body w = (internal_error e (Error ''Self Backend Verifier not initialized''), w)"
    and "part2_verify e body w = (internal_error e (Error ''Self Backend Verifier not initialized''), w)"
  using assms by (simp_all add: part3_verify_def server_verify_def part2_verify_def)

lemma self_missing_rejected:
  assumes "selfBackendVerifier e = Some verify" and "self_missing body"
  shows "status (fst (part3_verify e body w)) = 400" and "snd (part3_verify e body w) = w"
    and "status (fst (server_verify e body w)) = 400" and "snd (server_verify e body w) = w"
    and "status (fst (part2_verify e body w)) = 400" and "snd (part2_verify e body w) = w"
  using assms by (simp_all add: part3_verify_def server_verify_def part2_verify_def)

lemma self_rejected_proof:
  assumes "selfBackendVerifier e = Some verify" and "\<not> self_missing body"
    and "verify (field body ''attestationId'') (field body ''proof'') (field body ''publicSignals'')
           (field body ''userContextData'') = Inr r"
    and "\<not> truthy (field (isValidDetails r) ''isValid'')"
  shows "part3_verify e body w = (\<lparr>status = 400, json = self_failure e r\<rparr>, self_called body w)"
    and "server_verify e body w = (\<lparr>status = 400, json = self_failure e r\<rparr>, self_called body w)"
    and "part2_verify e body w = (\<lparr>status = 500, json = self_failure e r\<rparr>, self_called body w)"
  using assms by (simp_all add: part3_verify_def server_verify_def part2_verify_def Let_def)

lemma part3_verify_valid:
  assumes "selfBackendVerifier e = Some verify" and "\<not> self_missing body"
    and "verify (field body ''attestationId'') (field body ''proof'') (field body ''publicSignals'')
           (field body ''userContextData'') = Inr r"
    and "truthy (field (isValidDetails r) ''isValid'')"
    and "userData r = Some ud"
    and "newDate e (field (discloseOutput r) ''expiryDate'') = Some t"
  shows "part3_verify e body w =
           (\<lparr>status = 200, json = part3_success e r\<rparr>,
            part3_best_effort e r (field body ''proof'')
              ((self_called body w)
                 \<lparr>console := console w @ policy_lines e t (field (discloseOutput r) ''issuingState'')\<rparr>))"
  using assms by (simp add: part3_verify_def policy_log_def Let_def)

lemma server_verify_valid:
  assumes "selfBackendVerifier e = Some verify" and "\<not> self_missing body"
    and "verify (field body ''attestationId'') (field body ''proof'') (field body ''publicSignals'')
           (field body ''userContextData'') = Inr r"
    and "truthy (field (isValidDetails r) ''isValid'')"
    and "newDate e (field (discloseOutput r) ''expiryDate'') = Some t"
  shows "server_verify e body w =
           (\<lparr>status = 200, json = server_success e r t\<rparr>,
            (self_called body w)
              \<lparr>console := console w @ policy_lines e t (field (discloseOutput r) ''issuingState'')\<rparr>)"
  using assms by (simp add: server_verify_def policy_log_def server_best_effort_def Let_def)

lemma part3_verify_invalid_date:
  assumes "selfBackendVerifier e = Some verify" and "\<not> self_missing body"
    and "verify (field body ''attestationId'') (field body ''proof'') (field body ''publicSignals'')
           (field body ''userContextData'') = Inr r"
    and "truthy (field (isValidDetails r) ''isValid'')"
    and "userData r = Some ud"
    and "newDate e (field (discloseOutput r) ''expiryDate'') = None"
  shows "part3_verify e body w =
           (internal_error e (RangeError ''Invalid time value''), self_called body w)"
  using assms by (simp add: part3_verify_def policy_log_def Let_def)

text \<open>The inner block, case by case.\<close>

lemma part3_best_effort_cases:
  "part3_best_effort e r proof w =
     (let uid = opt_field (userData r) ''userIdentifier'';
          w1 = snd (saveSelfCheck e uid proof w)
      in if query_error e w (InsertSelfcheck uid proof) \<noteq> None then w1
         else (case Buffer_from_hex e (opt_field (userData r) ''userDefinedData'') of
                 Inl err \<Rightarrow> w1
               | Inr bytes \<Rightarrow>
                   if \<not> startsWith (toString_utf8 bytes) ''twilight'' then w1
                   else snd (saveVerification e uid (JStr (toString_utf8 bytes)) (JStr ''self'') w1)))"
  by (simp add: part3_best_effort_def saveSelfCheck_result Let_def split: option.splits sum.splits)

lemma part3_best_effort_attempt:
  "calls (part3_best_effort e r proof w) =
     calls w @ Query (InsertSelfcheck (opt_field (userData r) ''userIdentifier'') proof) #
       drop (Suc (length (calls w))) (calls (part3_best_effort e r proof w))"
  by (simp add: part3_best_effort_cases saveSelfCheck_result saveVerification_result Let_def
      split: option.splits sum.splits)

lemma part3_best_effort_console [simp]:
  "console (part3_best_effort e r proof w) = console w"
  by (simp add: part3_best_effort_cases saveSelfCheck_result saveVerification_result Let_def
      split: option.splits sum.splits)

lemma part3_best_effort_rows:
  "zkpass (part3_best_effort e r proof w) =
     (let uid = opt_field (userData r) ''userIdentifier'';
          w1 = snd (saveSelfCheck e uid proof w)
      in if query_error e w (InsertSelfcheck uid proof) \<noteq> None then zkpass w
         else (case Buffer_from_hex e (opt_field (userData r) ''userDefinedData'') of
                 Inl err \<Rightarrow> zkpass w
               | Inr bytes \<Rightarrow>
                   if startsWith (toString_utf8 bytes) ''twilight'' \<and>
                      query_error e w1 (InsertZkpass (JStr (toString_utf8 bytes)) uid (JStr ''self'')) = None
                   then zkpass w @ [(JStr (toString_utf8 bytes), uid, JStr ''self'')]
                   else zkpass w))"
  by (simp add: part3_best_effort_cases saveSelfCheck_result saveVerification_result Let_def
      split: option.splits sum.splits)

section \<open>Validation and rejected proofs write nothing\<close>

lemma zkpass_missing_rejected:
  "zkpass_missing body \<Longrightarrow>
     zkpass_handler provider respond e body w =
       (\<lparr>status = 400,
         json = JObj [(''error'', JStr ''missing fields''), (''have'', Object_keys body)]\<rparr>, w)"
  by (simp add: zkpass_handler_def)

lemma zkpass_gate_unverified:
  "zkpass_gate e s c (JBool False) = Inr True \<Longrightarrow> False"
  by (simp add: zkpass_gate_def loose_eq_true split: sum.splits if_splits)

lemma zkpass_unverified_world:
  assumes "\<not> zkpass_missing body"
    and "zk_verify e (field body ''proofs'') (zkpass_qr body) (field body ''scope'')
           (devMode_or_true (field body ''devMode'')) = Inr r"
    and "verified r = JBool False"
  shows "snd (zkpass_handler provider respond e body w) = zkpass_called body w"
proof (cases "zkpass_gate e (uniqueIdentifier r) (field body ''uniqueIdentifier'') (JBool False)")
  case (Inl err)
  with assms show ?thesis
    by (simp add: zkpass_handler_def Let_def)
next
  case (Inr g)
  with zkpass_gate_unverified [of e "uniqueIdentifier r" "field body ''uniqueIdentifier''"]
  have "\<not> g"
    by auto
  with Inr assms show ?thesis
    by (simp add: zkpass_handler_def Let_def split: sum.splits)
qed

text \<open>
  C5 as stated fails: the verifier failed to initialise, the request has no field at all,
  and POST /api/verify answers 500, because it tests \<^verbatim>\<open>!selfBackendVerifier\<close> before it
  looks at the body.
\<close>

theorem missing_field_unready_counterexample:
  "selfBackendVerifier down_env = None \<and>
   self_missing [] \<and>
   fst (part3_verify down_env [] empty_world) =
     \<lparr>status = 500,
      json = JObj [(''status'', JStr ''error''),
                   (''message'', JStr ''Self Backend Verifier not initialized''),
                   (''timestamp'', JStr ''2023-11-14T22:13:20.000Z'')]\<rparr> \<and>
   status (fst (server_verify down_env [] empty_world)) = 500 \<and>
   status (fst (part2_verify down_env [] empty_world)) = 500"
  by (simp add: down_env_def demo_env_def self_missing_def field_def part3_verify_def
      server_verify_def part2_verify_def internal_error_def js_or_def)

text \<open>
  C5, as amended. A request that misses a required field (a field that is absent or
  falsy) changes nothing in the world, so no SQL statement is issued and no verifier is
  called; POST /api/verify/zkpass and POST /api/verify/self answer 400, and POST /api/verify
  answers 400 when the verifier is initialised and 500 when it is not. When the verifier
  rejects the proof (\<^verbatim>\<open>isValid\<close> falsy, \<^verbatim>\<open>verified\<close> false) no row is written to either table,
  and POST /api/verify answers with the failure envelope (400; 500 in src/unnamed/part_002).
\<close>

theorem no_write_without_valid_proof:
  "(zkpass_missing body \<longrightarrow>
      status (fst (part3_verify_zkpass e body w)) = 400 \<and> snd (part3_verify_zkpass e body w) = w \<and>
      status (fst (server_verify_zkpass e body w)) = 400 \<and> snd (server_verify_zkpass e body w) = w) \<and>
   (\<not> truthy (field body ''cosmosAddress'') \<or> \<not> truthy (field body ''uuid'') \<longrightarrow>
      status (fst (part3_verify_self e body w)) = 400 \<and> snd (part3_verify_self e body w) = w \<and>
      status (fst (server_verify_self e body w)) = 400 \<and> snd (server_verify_self e body w) = w) \<and>
   (self_missing body \<longrightarrow>
      status (fst (part3_verify e body w)) = (if selfBackendVerifier e = None then 500 else 400) \<and>
      snd (part3_verify e body w) = w \<and>
      status (fst (server_verify e body w)) = (if selfBackendVerifier e = None then 500 else 400) \<and>
      snd (server_verify e body w) = w \<and>
      status (fst (part2_verify e body w)) = (if selfBackendVerifier e = None then 500 else 400) \<and>
      snd (part2_verify e body w) = w) \<and>
   (selfBackendVerifier e = Some verify \<and> \<not> self_missing body \<and>
    verify (field body ''attestationId'') (field body ''proof'') (field body ''publicSignals'')
      (field body ''userContextData'') = Inr r \<and>
    \<not> truthy (field (isValidDetails r) ''isValid'') \<longrightarrow>
      part3_verify e body w = (\<lparr>status = 400, json = self_failure e r\<rparr>, self_called body w) \<and>
      server_verify e body w = (\<lparr>status = 400, json = self_failure e r\<rparr>, self_called body w) \<and>
      part2_verify e body w = (\<lparr>status = 500, json = self_failure e r\<rparr>, self_called body w) \<and>
      zkpass (self_called body w) = zkpass w \<and> selfcheck (self_called body w) = selfcheck w) \<and>
   (\<not> zkpass_missing body \<and>
    zk_verify e (field body ''proofs'') (zkpass_qr body) (field body ''scope'')
      (devMode_or_true (field body ''devMode'')) = Inr z \<and>
    verified z = JBool False \<longrightarrow>
      zkpass (snd (part3_verify_zkpass e body w)) = zkpass w \<and>
      selfcheck (snd (part3_verify_zkpass e body w)) = selfcheck w \<and>
      zkpass (snd (server_verify_zkpass e body w)) = zkpass w \<and>
      selfcheck (snd (server_verify_zkpass e body w)) = selfcheck w)"
proof (intro conjI impI)
  assume "zkpass_missing body"
  then show "status (fst (part3_verify_zkpass e body w)) = 400"
    and "snd (part3_verify_zkpass e body w) = w"
    and "status (fst (server_verify_zkpass e body w)) = 400"
    and "snd (server_verify_zkpass e body w) = w"
    by (simp_all add: part3_verify_zkpass_def server_verify_zkpass_def zkpass_missing_rejected)
next
  assume "\<not> truthy (field body ''cosmosAddress'') \<or> \<not> truthy (field body ''uuid'')"
  then show "status (fst (part3_verify_self e body w)) = 400"
    and "snd (part3_verify_self e body w) = w"
    and "status (fst (server_verify_self e body w)) = 400"
    and "snd (server_verify_self e body w) = w"
    unfolding part3_verify_self_def server_verify_self_def
    by (rule binding_missing_field)+
next
  assume m: "self_missing body"
  show "status (fst (part3_verify e body w)) = (if selfBackendVerifier e = None then 500 else 400)"
    and "snd (part3_verify e body w) = w"
    and "status (fst (server_verify e body w)) = (if selfBackendVerifier e = None then 500 else 400)"
    and "snd (server_verify e body w) = w"
    and "status (fst (part2_verify e body w)) = (if selfBackendVerifier e = None then 500 else 400)"
    and "snd (part2_verify e body w) = w"
    using m
    by (cases "selfBackendVerifier e";
        simp add: self_missing_unready self_missing_rejected internal_error_def)+
next
  assume h: "selfBackendVerifier e = Some verify \<and> \<not> self_missing body \<and>
    verify (field body ''attestationId'') (field body ''proof'') (field body ''publicSignals'')
      (field body ''userContextData'') = Inr r \<and>
    \<not> truthy (field (isValidDetails r) ''isValid'')"
  then show "part3_verify e body w = (\<lparr>status = 400, json = self_failure e r\<rparr>, self_called body w)"
    and "server_verify e body w = (\<lparr>status = 400, json = self_failure e r\<rparr>, self_called body w)"
    and "part2_verify e body w = (\<lparr>status = 500, json = self_failure e r\<rparr>, self_called body w)"
    by (simp_all add: self_rejected_proof)
  show "zkpass (self_called body w) = zkpass w" and "selfcheck (self_called body w) = selfcheck w"
    by simp_all
next
  assume h: "\<not> zkpass_missing body \<and>
    zk_verify e (field body ''proofs'') (zkpass_qr body) (field body ''scope'')
      (devMode_or_true (field body ''devMode'')) = Inr z \<and>
    verified z = JBool False"
  then show "zkpass (snd (part3_verify_zkpass e body w)) = zkpass w"
    and "selfcheck (snd (part3_verify_zkpass e body w)) = selfcheck w"
    and "zkpass (snd (server_verify_zkpass e body w)) = zkpass w"
    and "selfcheck (snd (server_verify_zkpass e body w)) = selfcheck w"
    by (simp_all add: part3_verify_zkpass_def server_verify_zkpass_def zkpass_unverified_world)
qed

theorem no_write_without_valid_proof_witness:
  "zkpass_missing [] \<and>
   part3_verify_zkpass reject_env [] empty_world =
     (\<lparr>status = 400, json = JObj [(''error'', JStr ''missing fields''), (''have'', JArr [])]\<rparr>,
      empty_world) \<and>
   \<not> truthy (field [] ''uuid'') \<and>
   status (fst (part3_verify_self reject_env [] empty_world)) = 400 \<and>
   snd (part3_verify_self reject_env [] empty_world) = empty_world \<and>
   self_missing [] \<and>
   status (fst (part3_verify reject_env [] empty_world)) = 400 \<and>
   snd (part3_verify reject_env [] empty_world) = empty_world \<and>
   status (fst (part3_verify down_env [] empty_world)) = 500 \<and>
   snd (part3_verify down_env [] empty_world) = empty_world \<and>
   selfBackendVerifier reject_env = Some reject_verify \<and>
   \<not> self_missing self_body \<and>
   \<not> truthy (field (isValidDetails reject_self_result) ''isValid'') \<and>
   status (fst (part3_verify reject_env self_body empty_world)) = 400 \<and>
   zkpass (snd (part3_verify reject_env self_body empty_world)) = [] \<and>
   selfcheck (snd (part3_verify reject_env self_body empty_world)) = [] \<and>
   \<not> zkpass_missing zk_body_abc \<and>
   verified reject_zk_result = JBool False \<and>
   zkpass (snd (part3_verify_zkpass reject_env zk_body_abc empty_world)) = [] \<and>
   selfcheck (snd (part3_verify_zkpass reject_env zk_body_abc empty_world)) = []"
proof -
  note t1 = no_write_without_valid_proof
    [of "[]" reject_env empty_world reject_verify reject_self_result reject_zk_result]
  note t2 = no_write_without_valid_proof
    [of "[]" down_env empty_world reject_verify reject_self_result reject_zk_result]
  note t3 = no_write_without_valid_proof
    [of self_body reject_env empty_world reject_verify reject_self_result reject_zk_result]
  note t4 = no_write_without_valid_proof
    [of zk_body_abc reject_env empty_world reject_verify reject_self_result reject_zk_result]
  have h1: "zkpass_missing []"
    by (simp add: zkpass_missing_def field_def)
  have h2: "\<not> truthy (field [] ''uuid'')"
    by (simp add: field_def)
  have h3: "self_missing []"
    by (simp add: self_missing_def field_def)
  have h4: "selfBackendVerifier reject_env = Some reject_verify"
    by (simp add: reject_env_def)
  have h5: "selfBackendVerifier down_env = None"
    by (simp add: down_env_def)
  have h6: "\<not> self_missing self_body"
    by (simp add: self_missing_def self_body_def field_def)
  have h7: "reject_verify (field self_body ''attestationId'') (field self_body ''proof'')
              (field self_body ''publicSignals'') (field self_body ''userContextData'') =
            Inr reject_self_result"
    by (simp add: reject_verify_def)
  have h8: "\<not> truthy (field (isValidDetails reject_self_result) ''isValid'')"
    by (simp add: reject_self_result_def field_def)
  have h9: "\<not> zkpass_missing zk_body_abc"
    by (simp add: zk_demo_defs)
  have h10: "zk_verify reject_env (field zk_body_abc ''proofs'') (zkpass_qr zk_body_abc)
               (field zk_body_abc ''scope'') (devMode_or_true (field zk_body_abc ''devMode'')) =
             Inr reject_zk_result"
    by (simp add: reject_env_def)
  have h11: "verified reject_zk_result = JBool False"
    by (simp add: reject_zk_result_def)
  have c1: "part3_verify_zkpass reject_env [] empty_world =
     (\<lparr>status = 400, json = JObj [(''error'', JStr ''missing fields''), (''have'', JArr [])]\<rparr>,
      empty_world)"
    using h1 by (simp add: part3_verify_zkpass_def zkpass_missing_rejected Object_keys_def)
  have c2: "status (fst (part3_verify_self reject_env [] empty_world)) = 400 \<and>
            snd (part3_verify_self reject_env [] empty_world) = empty_world"
    using t1 h2 by simp
  have c3: "status (fst (part3_verify reject_env [] empty_world)) = 400 \<and>
            snd (part3_verify reject_env [] empty_world) = empty_world"
    using t1 h3 h4 by simp
  have c4: "status (fst (part3_verify down_env [] empty_world)) = 500 \<and>
            snd (part3_verify down_env [] empty_world) = empty_world"
    using t2 h3 h5 by simp
  have c5: "part3_verify reject_env self_body empty_world =
              (\<lparr>status = 400, json = self_failure reject_env reject_self_result\<rparr>,
               self_called self_body empty_world)"
    using t3 h4 h6 h7 h8 by blast
  have c6: "zkpass (snd (part3_verify_zkpass reject_env zk_body_abc empty_world)) = zkpass empty_world \<and>
            selfcheck (snd (part3_verify_zkpass reject_env zk_body_abc empty_world)) = selfcheck empty_world"
    using t4 h9 h10 h11 by blast
  show ?thesis
    using h1 h2 h3 h4 h6 h8 h9 h11 c1 c2 c3 c4 c5 c6
    by (simp add: empty_world_def)
qed

section \<open>Truthiness in the validation of POST /api/verify\<close>

lemma self_called_calls: "calls (self_called body w) =
  calls w @ [SelfVerify (field body ''attestationId'') (field body ''proof'')
               (field body ''publicSignals'') (field body ''userContextData'')]"
  by (simp add: self_called_def)

lemma part3_best_effort_keeps_calls:
  "set (calls w) \<subseteq> set (calls (part3_best_effort e r proof w))"
  by (simp add: part3_best_effort_cases saveSelfCheck_result saveVerification_result Let_def
      split: option.splits sum.splits) auto

lemma part3_verify_calls_verifier:
  assumes "selfBackendVerifier e = Some verify" and "\<not> self_missing body"
  shows "SelfVerify (field body ''attestationId'') (field body ''proof'')
           (field body ''publicSignals'') (field body ''userContextData'')
         \<in> set (calls (snd (part3_verify e body w)))"
proof -
  let ?c = "SelfVerify (field body ''attestationId'') (field body ''proof'')
              (field body ''publicSignals'') (field body ''userContextData'')"
  have in1: "?c \<in> set (calls (self_called body w))"
    by (simp add: self_called_calls)
  have in2: "\<And>x lines. ?c \<in> set (calls (part3_best_effort e x (field body ''proof'')
                 ((self_called body w)\<lparr>console := lines\<rparr>)))"
    using part3_best_effort_keeps_calls in1 by (fastforce simp: self_called_calls)
  show ?thesis
    using assms in1 in2
    by (simp add: part3_verify_def policy_log_def Let_def split: sum.splits option.splits)
qed

lemma server_verify_calls_verifier:
  assumes "selfBackendVerifier e = Some verify" and "\<not> self_missing body"
  shows "SelfVerify (field body ''attestationId'') (field body ''proof'')
           (field body ''publicSignals'') (field body ''userContextData'')
         \<in> set (calls (snd (server_verify e body w)))"
  using assms
  by (simp add: server_verify_def policy_log_def server_best_effort_def self_called_calls Let_def
      split: sum.splits option.splits)

lemma part2_verify_calls_verifier:
  assumes "selfBackendVerifier e = Some verify" and "\<not> self_missing body"
  shows "SelfVerify (field body ''attestationId'') (field body ''proof'')
           (field body ''publicSignals'') (field body ''userContextData'')
         \<in> set (calls (snd (part2_verify e body w)))"
  using assms
  by (simp add: part2_verify_def self_called_calls Let_def split: sum.splits)

lemma validation_when_ready:
  assumes "selfBackendVerifier e = Some verify"
  shows "(field body ''publicSignals'' = JArr [] \<and> truthy (field body ''attestationId'') \<and>
          truthy (field body ''proof'') \<and> truthy (field body ''userContextData'') \<longrightarrow>
            \<not> self_missing body \<and>
            SelfVerify (field body ''attestationId'') (field body ''proof'') (JArr [])
              (field body ''userContextData'') \<in> set (calls (snd (part3_verify e body w))) \<and>
            SelfVerify (field body ''attestationId'') (field body ''proof'') (JArr [])
              (field body ''userContextData'') \<in> set (calls (snd (server_verify e body w))) \<and>
            SelfVerify (field body ''attestationId'') (field body ''proof'') (JArr [])
              (field body ''userContextData'') \<in> set (calls (snd (part2_verify e body w)))) \<and>
         (field body ''attestationId'' = JStr [] \<or> field body ''proof'' = JStr [] \<or>
          field body ''userContextData'' = JStr [] \<longrightarrow>
            status (fst (part3_verify e body w)) = 400 \<and> snd (part3_verify e body w) = w \<and>
            status (fst (server_verify e body w)) = 400 \<and> snd (server_verify e body w) = w \<and>
            status (fst (part2_verify e body w)) = 400 \<and> snd (part2_verify e body w) = w)"
proof (intro conjI impI)
  assume h: "field body ''publicSignals'' = JArr [] \<and> truthy (field body ''attestationId'') \<and>
          truthy (field body ''proof'') \<and> truthy (field body ''userContextData'')"
  then show nm: "\<not> self_missing body"
    by (simp add: self_missing_def)
  from h have ps: "field body ''publicSignals'' = JArr []"
    by simp
  show "SelfVerify (field body ''attestationId'') (field body ''proof'') (JArr [])
          (field body ''userContextData'') \<in> set (calls (snd (part3_verify e body w)))"
    using part3_verify_calls_verifier [OF assms nm, of w] by (simp add: ps)
  show "SelfVerify (field body ''attestationId'') (field body ''proof'') (JArr [])
          (field body ''userContextData'') \<in> set (calls (snd (server_verify e body w)))"
    using server_verify_calls_verifier [OF assms nm, of w] by (simp add: ps)
  show "SelfVerify (field body ''attestationId'') (field body ''proof'') (JArr [])
          (field body ''userContextData'') \<in> set (calls (snd (part2_verify e body w)))"
    using part2_verify_calls_verifier [OF assms nm, of w] by (simp add: ps)
next
  assume "field body ''attestationId'' = JStr [] \<or> field body ''proof'' = JStr [] \<or>
          field body ''userContextData'' = JStr []"
  then have m: "self_missing body"
    by (auto simp: self_missing_def)
  show "status (fst (part3_verify e body w)) = 400" and "snd (part3_verify e body w) = w"
    and "status (fst (server_verify e body w)) = 400" and "snd (server_verify e body w) = w"
    and "status (fst (part2_verify e body w)) = 400" and "snd (part2_verify e body w) = w"
    by (rule self_missing_rejected [OF assms m])+
qed

text \<open>
  C10 as stated fails: the verifier failed to initialise, and POST /api/verify answers 500
  before it looks at the body. The request with the empty-string \<^verbatim>\<open>attestationId\<close> gets 500,
  not 400, and the request with the empty \<^verbatim>\<open>publicSignals\<close> array reaches no verifier.
\<close>

theorem empty_attestation_unready_counterexample:
  "selfBackendVerifier down_env = None \<and>
   field empty_attestation_body ''attestationId'' = JStr [] \<and>
   status (fst (part3_verify down_env empty_attestation_body empty_world)) = 500 \<and>
   status (fst (server_verify down_env empty_attestation_body empty_world)) = 500 \<and>
   status (fst (part2_verify down_env empty_attestation_body empty_world)) = 500 \<and>
   field empty_signals_body ''publicSignals'' = JArr [] \<and>
   truthy (field empty_signals_body ''attestationId'') \<and>
   truthy (field empty_signals_body ''proof'') \<and>
   truthy (field empty_signals_body ''userContextData'') \<and>
   calls (snd (part3_verify down_env empty_signals_body empty_world)) = [] \<and>
   calls (snd (server_verify down_env empty_signals_body empty_world)) = [] \<and>
   calls (snd (part2_verify down_env empty_signals_body empty_world)) = []"
  by (simp add: down_env_def demo_env_def empty_attestation_body_def empty_signals_body_def field_def
      part3_verify_def server_verify_def part2_verify_def internal_error_def empty_world_def)

text \<open>
  C10, as amended. The validation of POST /api/verify tests truthiness. When the verifier
  is initialised: a body whose \<^verbatim>\<open>publicSignals\<close> is the empty array and whose other three
  fields are truthy passes the validation, and the verifier is called with the empty array;
  a body whose \<^verbatim>\<open>attestationId\<close>, \<^verbatim>\<open>proof\<close> or \<^verbatim>\<open>userContextData\<close> is the empty string is
  answered 400 with the world untouched (no verifier call, no SQL statement). When the
  verifier is not initialised, every request is answered 500 before the validation, with the
  world untouched. The same in the three variants of the handler.
\<close>

theorem validation_is_truthiness:
  "(selfBackendVerifier e = Some verify \<longrightarrow>
      (field body ''publicSignals'' = JArr [] \<and> truthy (field body ''attestationId'') \<and>
       truthy (field body ''proof'') \<and> truthy (field body ''userContextData'') \<longrightarrow>
         \<not> self_missing body \<and>
         SelfVerify (field body ''attestationId'') (field body ''proof'') (JArr [])
           (field body ''userContextData'') \<in> set (calls (snd (part3_verify e body w))) \<and>
         SelfVerify (field body ''attestationId'') (field body ''proof'') (JArr [])
           (field body ''userContextData'') \<in> set (calls (snd (server_verify e body w))) \<and>
         SelfVerify (field body ''attestationId'') (field body ''proof'') (JArr [])
           (field body ''userContextData'') \<in> set (calls (snd (part2_verify e body w)))) \<and>
      (field body ''attestationId'' = JStr [] \<or> field body ''proof'' = JStr [] \<or>
       field body ''userContextData'' = JStr [] \<longrightarrow>
         status (fst (part3_verify e body w)) = 400 \<and> snd (part3_verify e body w) = w \<and>
         status (fst (server_verify e body w)) = 400 \<and> snd (server_verify e body w) = w \<and>
         status (fst (part2_verify e body w)) = 400 \<and> snd (part2_verify e body w) = w)) \<and>
   (selfBackendVerifier e = None \<longrightarrow>
      status (fst (part3_verify e body w)) = 500 \<and> snd (part3_verify e body w) = w \<and>
      status (fst (server_verify e body w)) = 500 \<and> snd (server_verify e body w) = w \<and>
      status (fst (part2_verify e body w)) = 500 \<and> snd (part2_verify e body w) = w)"
proof (intro conjI)
  show "selfBackendVerifier e = Some verify \<longrightarrow>
      (field body ''publicSignals'' = JArr [] \<and> truthy (field body ''attestationId'') \<and>
       truthy (field body ''proof'') \<and> truthy (field body ''userContextData'') \<longrightarrow>
         \<not> self_missing body \<and>
         SelfVerify (field body ''attestationId'') (field body ''proof'') (JArr [])
           (field body ''userContextData'') \<in> set (calls (snd (part3_verify e body w))) \<and>
         SelfVerify (field body ''attestationId'') (field body ''proof'') (JArr [])
           (field body ''userContextData'') \<in> set (calls (snd (server_verify e body w))) \<and>
         SelfVerify (field body ''attestationId'') (field body ''proof'') (JArr [])
           (field body ''userContextData'') \<in> set (calls (snd (part2_verify e body w)))) \<and>
      (field body ''attestationId'' = JStr [] \<or> field body ''proof'' = JStr [] \<or>
       field body ''userContextData'' = JStr [] \<longrightarrow>
         status (fst (part3_verify e body w)) = 400 \<and> snd (part3_verify e body w) = w \<and>
         status (fst (server_verify e body w)) = 400 \<and> snd (server_verify e body w) = w \<and>
         status (fst (part2_verify e body w)) = 400 \<and> snd (part2_verify e body w) = w)"
    using validation_when_ready [of e verify body w] by blast
next
  show "selfBackendVerifier e = None \<longrightarrow>
      status (fst (part3_verify e body w)) = 500 \<and> snd (part3_verify e body w) = w \<and>
      status (fst (server_verify e body w)) = 500 \<and> snd (server_verify e body w) = w \<and>
      status (fst (part2_verify e body w)) = 500 \<and> snd (part2_verify e body w) = w"
    by (simp add: self_missing_unready internal_error_def)
qed

theorem validation_is_truthiness_witness:
  "selfBackendVerifier reject_env = Some reject_verify \<and>
   field empty_signals_body ''publicSignals'' = JArr [] \<and>
   \<not> self_missing empty_signals_body \<and>
   SelfVerify (JNum 1) (JObj [(''a'', JArr [])]) (JArr []) (JStr ''00'')
     \<in> set (calls (snd (part3_verify reject_env empty_signals_body empty_world))) \<and>
   field empty_attestation_body ''attestationId'' = JStr [] \<and>
   status (fst (part3_verify reject_env empty_attestation_body empty_world)) = 400 \<and>
   snd (part3_verify reject_env empty_attestation_body empty_world) = empty_world \<and>
   selfBackendVerifier down_env = None \<and>
   status (fst (part3_verify down_env empty_attestation_body empty_world)) = 500 \<and>
   snd (part3_verify down_env empty_attestation_body empty_world) = empty_world"
proof -
  have v: "selfBackendVerifier reject_env = Some reject_verify"
    by (simp add: reject_env_def)
  have d: "selfBackendVerifier down_env = None"
    by (simp add: down_env_def)
  note t1 = validation_is_truthiness [of reject_env reject_verify empty_signals_body empty_world]
  note t2 = validation_is_truthiness [of reject_env reject_verify empty_attestation_body empty_world]
  note t3 = validation_is_truthiness [of down_env reject_verify empty_attestation_body empty_world]
  have f: "field empty_signals_body ''publicSignals'' = JArr []"
    "field empty_signals_body ''attestationId'' = JNum 1"
    "field empty_signals_body ''proof'' = JObj [(''a'', JArr [])]"
    "field empty_signals_body ''userContextData'' = JStr ''00''"
    by (simp_all add: empty_signals_body_def field_def)
  have g: "field empty_attestation_body ''attestationId'' = JStr []"
    by (simp add: empty_attestation_body_def field_def)
  have c1: "\<not> self_missing empty_signals_body \<and>
            SelfVerify (JNum 1) (JObj [(''a'', JArr [])]) (JArr []) (JStr ''00'')
              \<in> set (calls (snd (part3_verify reject_env empty_signals_body empty_world)))"
    using t1 v f by simp
  have c2: "status (fst (part3_verify reject_env empty_attestation_body empty_world)) = 400 \<and>
            snd (part3_verify reject_env empty_attestation_body empty_world) = empty_world"
    using t2 v g by simp
  have c3: "status (fst (part3_verify down_env empty_attestation_body empty_world)) = 500 \<and>
            snd (part3_verify down_env empty_attestation_body empty_world) = empty_world"
    using t3 d by simp
  show ?thesis
    using v d f(1) g c1 c2 c3 by simp
qed

section \<open>The valid outcome of POST /api/verify: policy checks and the inner block\<close>

lemma demo_verifier: "selfBackendVerifier demo_env = Some demo_verify"
  "selfBackendVerifier db_down_env = Some demo_verify"
  "selfBackendVerifier cosmos_env = Some cosmos_verify"
  by (simp_all add: demo_env_def db_down_env_def cosmos_env_def)

text \<open>
  What the handlers do with a valid outcome whose \<^verbatim>\<open>userData\<close> is present and whose expiry
  date is a date: the response, and the rows of table zkpass, are fixed by the request, the
  verifier result and the database alone. Neither \<open>isExpiryValid\<close> nor \<open>isCountryAllowed\<close>
  occurs in them (src/server.mjs reports the two values in the body, under status success).
\<close>

lemma valid_outcome_ignores_policy:
  assumes "selfBackendVerifier e = Some verify" and "\<not> self_missing body"
    and "verify (field body ''attestationId'') (field body ''proof'') (field body ''publicSignals'')
           (field body ''userContextData'') = Inr r"
    and "truthy (field (isValidDetails r) ''isValid'')"
    and "userData r = Some ud"
    and "newDate e (field (discloseOutput r) ''expiryDate'') = Some t"
  shows "fst (part3_verify e body w) = \<lparr>status = 200, json = part3_success e r\<rparr>"
    and "snd (part3_verify e body w) =
           part3_best_effort e r (field body ''proof'') (policy_logged e r t body w)"
    and "Query (InsertSelfcheck (field ud ''userIdentifier'') (field body ''proof''))
           \<in> set (calls (snd (part3_verify e body w)))"
    and "zkpass (snd (part3_verify e body w)) =
     (if query_error e (policy_logged e r t body w)
           (InsertSelfcheck (field ud ''userIdentifier'') (field body ''proof'')) \<noteq> None
      then zkpass w
      else (case Buffer_from_hex e (field ud ''userDefinedData'') of
              Inl err \<Rightarrow> zkpass w
            | Inr bytes \<Rightarrow>
                if startsWith (toString_utf8 bytes) ''twilight'' \<and>
                   query_error e (snd (saveSelfCheck e (field ud ''userIdentifier'') (field body ''proof'')
                                         (policy_logged e r t body w)))
                     (InsertZkpass (JStr (toString_utf8 bytes)) (field ud ''userIdentifier'')
                        (JStr ''self'')) = None
                then zkpass w @ [(JStr (toString_utf8 bytes), field ud ''userIdentifier'', JStr ''self'')]
                else zkpass w))"
    and "fst (server_verify e body w) = \<lparr>status = 200, json = server_success e r t\<rparr>"
    and "zkpass (snd (server_verify e body w)) = zkpass w"
proof -
  note p3 = part3_verify_valid [OF assms, of w]
  have uid: "opt_field (userData r) ''userIdentifier'' = field ud ''userIdentifier''"
    and udd: "opt_field (userData r) ''userDefinedData'' = field ud ''userDefinedData''"
    using assms(5) by (simp_all add: opt_field_def)
  have rows: "zkpass (policy_logged e r t body w) = zkpass w"
    "selfcheck (policy_logged e r t body w) = selfcheck w"
    by (simp_all add: policy_logged_def)
  show "fst (part3_verify e body w) = \<lparr>status = 200, json = part3_success e r\<rparr>"
    using p3 by simp
  show s: "snd (part3_verify e body w) =
             part3_best_effort e r (field body ''proof'') (policy_logged e r t body w)"
    using p3 by (simp add: policy_logged_def)
  have "calls (snd (part3_verify e body w)) =
          calls (policy_logged e r t body w) @
            Query (InsertSelfcheck (opt_field (userData r) ''userIdentifier'') (field body ''proof'')) #
            drop (Suc (length (calls (policy_logged e r t body w)))) (calls (snd (part3_verify e body w)))"
    unfolding s
    using part3_best_effort_attempt [of e r "field body ''proof''" "policy_logged e r t body w"]
    by simp
  then have "Query (InsertSelfcheck (opt_field (userData r) ''userIdentifier'') (field body ''proof''))
               \<in> set (calls (snd (part3_verify e body w)))"
    by (metis in_set_conv_decomp)
  then show "Query (InsertSelfcheck (field ud ''userIdentifier'') (field body ''proof''))
               \<in> set (calls (snd (part3_verify e body w)))"
    by (simp add: uid)
  show "zkpass (snd (part3_verify e body w)) =
     (if query_error e (policy_logged e r t body w)
           (InsertSelfcheck (field ud ''userIdentifier'') (field body ''proof'')) \<noteq> None
      then zkpass w
      else (case Buffer_from_hex e (field ud ''userDefinedData'') of
              Inl err \<Rightarrow> zkpass w
            | Inr bytes \<Rightarrow>
                if startsWith (toString_utf8 bytes) ''twilight'' \<and>
                   query_error e (snd (saveSelfCheck e (field ud ''userIdentifier'') (field body ''proof'')
                                         (policy_logged e r t body w)))
                     (InsertZkpass (JStr (toString_utf8 bytes)) (field ud ''userIdentifier'')
                        (JStr ''self'')) = None
                then zkpass w @ [(JStr (toString_utf8 bytes), field ud ''userIdentifier'', JStr ''self'')]
                else zkpass w))"
    unfolding s by (simp add: part3_best_effort_rows uid udd rows Let_def split: sum.splits)
  note sv = server_verify_valid [OF assms(1-4) assms(6), of w]
  show "fst (server_verify e body w) = \<lparr>status = 200, json = server_success e r t\<rparr>"
    using sv by simp
  show "zkpass (snd (server_verify e body w)) = zkpass w"
    using sv by simp
qed

text \<open>
  C6 holds when the expiry date is a date (lemma \<open>valid_outcome_ignores_policy\<close>) and fails
  when it is not. The verifier accepts the proof and discloses no expiry date, so
  \<^verbatim>\<open>new Date(undefined)\<close> is an invalid date and the expiry predicate is false. The policy
  log line then calls \<^verbatim>\<open>expiryDate.toISOString()\<close>, which throws, and the handlers of
  src/unnamed/part_003 and src/server.mjs answer 500 with nothing attempted beyond the
  verifier call. The first version of the endpoint (src/unnamed/part_002), which has no
  policy check, answers 200 to the same request.
\<close>

theorem unparseable_expiry_blocks_success:
  "truthy (field (isValidDetails undisclosed_self_result) ''isValid'') \<and>
   field (discloseOutput undisclosed_self_result) ''expiryDate'' = JUndefined \<and>
   newDate undisclosed_env JUndefined = None \<and>
   part3_verify undisclosed_env self_body empty_world =
     (\<lparr>status = 500,
       json = JObj [(''status'', JStr ''error''),
                    (''message'', JStr ''Invalid time value''),
                    (''timestamp'', JStr ''2023-11-14T22:13:20.000Z'')]\<rparr>,
      \<lparr>zkpass = [], selfcheck = [],
       calls = [SelfVerify (JNum 1) (JObj [(''a'', JArr [])]) (JArr [JStr ''1'']) (JStr ''00'')],
       console = []\<rparr>) \<and>
   server_verify undisclosed_env self_body empty_world =
     (\<lparr>status = 500,
       json = JObj [(''status'', JStr ''error''),
                    (''message'', JStr ''Invalid time value''),
                    (''timestamp'', JStr ''2023-11-14T22:13:20.000Z'')]\<rparr>,
      \<lparr>zkpass = [], selfcheck = [],
       calls = [SelfVerify (JNum 1) (JObj [(''a'', JArr [])]) (JArr [JStr ''1'']) (JStr ''00'')],
       console = []\<rparr>) \<and>
   status (fst (part2_verify undisclosed_env self_body empty_world)) = 200 \<and>
   status (fst (part3_verify demo_env self_body empty_world)) = 200 \<and>
   zkpass (snd (part3_verify demo_env self_body empty_world)) =
     [(JStr ''twilight1abc'', JStr ''u1'', JStr ''self'')]"
proof -
  have a: "truthy (field (isValidDetails undisclosed_self_result) ''isValid'')"
    "field (discloseOutput undisclosed_self_result) ''expiryDate'' = JUndefined"
    "newDate undisclosed_env JUndefined = None"
    by (simp_all add: undisclosed_self_result_def undisclosed_env_def demo_env_def demo_newDate_def
        field_def)
  have b: "part3_verify undisclosed_env self_body empty_world =
     (\<lparr>status = 500,
       json = JObj [(''status'', JStr ''error''),
                    (''message'', JStr ''Invalid time value''),
                    (''timestamp'', JStr ''2023-11-14T22:13:20.000Z'')]\<rparr>,
      \<lparr>zkpass = [], selfcheck = [],
       calls = [SelfVerify (JNum 1) (JObj [(''a'', JArr [])]) (JArr [JStr ''1'']) (JStr ''00'')],
       console = []\<rparr>)"
    by code_simp
  have c: "server_verify undisclosed_env self_body empty_world =
     (\<lparr>status = 500,
       json = JObj [(''status'', JStr ''error''),
                    (''message'', JStr ''Invalid time value''),
                    (''timestamp'', JStr ''2023-11-14T22:13:20.000Z'')]\<rparr>,
      \<lparr>zkpass = [], selfcheck = [],
       calls = [SelfVerify (JNum 1) (JObj [(''a'', JArr [])]) (JArr [JStr ''1'']) (JStr ''00'')],
       console = []\<rparr>)"
    by code_simp
  have d: "status (fst (part2_verify undisclosed_env self_body empty_world)) = 200"
    by code_simp
  have f: "status (fst (part3_verify demo_env self_body empty_world)) = 200"
    "zkpass (snd (part3_verify demo_env self_body empty_world)) =
       [(JStr ''twilight1abc'', JStr ''u1'', JStr ''self'')]"
    by code_simp+
  from a b c d f show ?thesis
    by simp
qed

text \<open>
  C8. For a valid verifier outcome that reaches the inner \<^verbatim>\<open>try\<close> block of POST /api/verify
  (src/unnamed/part_003): the answer is 200 with status success whatever the database and
  the address decoding do. When the insert into selfcheck is rejected nothing is stored;
  when the buffer cannot be built, or the decoded address does not start with
  \<^verbatim>\<open>twilight\<close>, or the insert into zkpass is rejected, no row is added to zkpass. The handler
  of src/server.mjs, whose inner block always throws, answers 200 with status success as well.
\<close>

theorem best_effort_failures_are_swallowed:
  assumes "selfBackendVerifier e = Some verify" and "\<not> self_missing body"
    and "verify (field body ''attestationId'') (field body ''proof'') (field body ''publicSignals'')
           (field body ''userContextData'') = Inr r"
    and "truthy (field (isValidDetails r) ''isValid'')"
    and "userData r = Some ud"
    and "newDate e (field (discloseOutput r) ''expiryDate'') = Some t"
  shows "fst (part3_verify e body w) =
           \<lparr>status = 200,
            json = JObj [(''status'', JStr ''success''),
                         (''message'', JStr ''Verification completed''),
                         (''result'', JBool True),
                         (''details'', JObj (isValidDetails r)),
                         (''timestamp'', JStr (toISOString e (now e)))]\<rparr> \<and>
         (query_error e (policy_logged e r t body w)
            (InsertSelfcheck (field ud ''userIdentifier'') (field body ''proof'')) \<noteq> None \<longrightarrow>
            zkpass (snd (part3_verify e body w)) = zkpass w \<and>
            selfcheck (snd (part3_verify e body w)) = selfcheck w) \<and>
         ((\<exists>err. Buffer_from_hex e (field ud ''userDefinedData'') = Inl err) \<longrightarrow>
            zkpass (snd (part3_verify e body w)) = zkpass w) \<and>
         ((\<exists>bytes. Buffer_from_hex e (field ud ''userDefinedData'') = Inr bytes \<and>
                    \<not> startsWith (toString_utf8 bytes) ''twilight'') \<longrightarrow>
            zkpass (snd (part3_verify e body w)) = zkpass w) \<and>
         ((\<exists>bytes. Buffer_from_hex e (field ud ''userDefinedData'') = Inr bytes \<and>
                    query_error e (snd (saveSelfCheck e (field ud ''userIdentifier'') (field body ''proof'')
                                          (policy_logged e r t body w)))
                      (InsertZkpass (JStr (toString_utf8 bytes)) (field ud ''userIdentifier'')
                         (JStr ''self'')) \<noteq> None) \<longrightarrow>
            zkpass (snd (part3_verify e body w)) = zkpass w) \<and>
         status (fst (server_verify e body w)) = 200 \<and>
         field (case json (fst (server_verify e body w)) of JObj kvs \<Rightarrow> kvs | other \<Rightarrow> []) ''status'' =
           JStr ''success''"
proof -
  note p3 = part3_verify_valid [OF assms, of w]
  have w2: "(self_called body w)
              \<lparr>console := console w @ policy_lines e t (field (discloseOutput r) ''issuingState'')\<rparr> =
            policy_logged e r t body w"
    by (simp add: policy_logged_def)
  have uid: "opt_field (userData r) ''userIdentifier'' = field ud ''userIdentifier''"
    and udd: "opt_field (userData r) ''userDefinedData'' = field ud ''userDefinedData''"
    using assms(5) by (simp_all add: opt_field_def)
  have rows: "zkpass (policy_logged e r t body w) = zkpass w"
    "selfcheck (policy_logged e r t body w) = selfcheck w"
    by (simp_all add: policy_logged_def)
  have a: "fst (part3_verify e body w) = \<lparr>status = 200, json = part3_success e r\<rparr>"
    using p3 by simp
  have s: "snd (part3_verify e body w) =
             part3_best_effort e r (field body ''proof'') (policy_logged e r t body w)"
    using p3 w2 by simp
  have b: "query_error e (policy_logged e r t body w)
            (InsertSelfcheck (field ud ''userIdentifier'') (field body ''proof'')) \<noteq> None \<longrightarrow>
            zkpass (snd (part3_verify e body w)) = zkpass w \<and>
            selfcheck (snd (part3_verify e body w)) = selfcheck w"
    unfolding s
    by (auto simp: part3_best_effort_cases uid udd rows saveSelfCheck_result Let_def)
  have z: "zkpass (snd (part3_verify e body w)) =
     (if query_error e (policy_logged e r t body w)
           (InsertSelfcheck (field ud ''userIdentifier'') (field body ''proof'')) \<noteq> None
      then zkpass w
      else (case Buffer_from_hex e (field ud ''userDefinedData'') of
              Inl err \<Rightarrow> zkpass w
            | Inr bytes \<Rightarrow>
                if startsWith (toString_utf8 bytes) ''twilight'' \<and>
                   query_error e (snd (saveSelfCheck e (field ud ''userIdentifier'') (field body ''proof'')
                                         (policy_logged e r t body w)))
                     (InsertZkpass (JStr (toString_utf8 bytes)) (field ud ''userIdentifier'')
                        (JStr ''self'')) = None
                then zkpass w @ [(JStr (toString_utf8 bytes), field ud ''userIdentifier'', JStr ''self'')]
                else zkpass w))"
    unfolding s by (simp add: part3_best_effort_rows uid udd rows Let_def split: sum.splits)
  have c: "(\<exists>err. Buffer_from_hex e (field ud ''userDefinedData'') = Inl err) \<longrightarrow>
            zkpass (snd (part3_verify e body w)) = zkpass w"
    unfolding z by auto
  have d: "(\<exists>bytes. Buffer_from_hex e (field ud ''userDefinedData'') = Inr bytes \<and>
                    \<not> startsWith (toString_utf8 bytes) ''twilight'') \<longrightarrow>
            zkpass (snd (part3_verify e body w)) = zkpass w"
    unfolding z by auto
  have f: "(\<exists>bytes. Buffer_from_hex e (field ud ''userDefinedData'') = Inr bytes \<and>
                    query_error e (snd (saveSelfCheck e (field ud ''userIdentifier'') (field body ''proof'')
                                          (policy_logged e r t body w)))
                      (InsertZkpass (JStr (toString_utf8 bytes)) (field ud ''userIdentifier'')
                         (JStr ''self'')) \<noteq> None) \<longrightarrow>
            zkpass (snd (part3_verify e body w)) = zkpass w"
    unfolding z by auto
  have g: "fst (server_verify e body w) = \<lparr>status = 200, json = server_success e r t\<rparr>"
    using server_verify_valid [OF assms(1-4) assms(6), of w] by simp
  have h: "status (fst (server_verify e body w)) = 200 \<and>
         field (case json (fst (server_verify e body w)) of JObj kvs \<Rightarrow> kvs | other \<Rightarrow> []) ''status'' =
           JStr ''success''"
    unfolding g by (simp add: server_success_def field_def)
  from a b c d f h show ?thesis
    by (simp add: part3_success_def)
qed

theorem best_effort_failures_are_swallowed_witness:
  "selfBackendVerifier db_down_env = Some demo_verify \<and>
   \<not> self_missing self_body \<and>
   truthy (field (isValidDetails demo_self_result) ''isValid'') \<and>
   query_error db_down_env (policy_logged db_down_env demo_self_result 1924992000000 self_body empty_world)
     (InsertSelfcheck (JStr ''u1'') (JObj [(''a'', JArr [])])) = Some (Error ''connection refused'') \<and>
   status (fst (part3_verify db_down_env self_body empty_world)) = 200 \<and>
   zkpass (snd (part3_verify db_down_env self_body empty_world)) = [] \<and>
   selfcheck (snd (part3_verify db_down_env self_body empty_world)) = [] \<and>
   selfBackendVerifier cosmos_env = Some cosmos_verify \<and>
   Buffer_from_hex cosmos_env (JStr ''636f736d6f7331616263'') =
     Inr [99, 111, 115, 109, 111, 115, 49, 97, 98, 99] \<and>
   toString_utf8 [99, 111, 115, 109, 111, 115, 49, 97, 98, 99] = ''cosmos1abc'' \<and>
   \<not> startsWith ''cosmos1abc'' ''twilight'' \<and>
   status (fst (part3_verify cosmos_env self_body empty_world)) = 200 \<and>
   zkpass (snd (part3_verify cosmos_env self_body empty_world)) = []"
proof -
  have nm: "\<not> self_missing self_body"
    by (simp add: self_missing_def self_body_def field_def)
  have v1: "demo_verify (field self_body ''attestationId'') (field self_body ''proof'')
              (field self_body ''publicSignals'') (field self_body ''userContextData'') =
            Inr demo_self_result"
    by (simp add: demo_verify_def)
  have v2: "cosmos_verify (field self_body ''attestationId'') (field self_body ''proof'')
              (field self_body ''publicSignals'') (field self_body ''userContextData'') =
            Inr cosmos_self_result"
    by (simp add: cosmos_verify_def)
  have ok1: "truthy (field (isValidDetails demo_self_result) ''isValid'')"
    by (simp add: demo_self_result_def field_def)
  have ok2: "truthy (field (isValidDetails cosmos_self_result) ''isValid'')"
    by (simp add: cosmos_self_result_def field_def)
  have u1: "userData demo_self_result =
              Some [(''userIdentifier'', JStr ''u1''),
                    (''userDefinedData'', JStr ''7477696c6967687431616263'')]"
    by (simp add: demo_self_result_def)
  have u2: "userData cosmos_self_result =
              Some [(''userIdentifier'', JStr ''u1''),
                    (''userDefinedData'', JStr ''636f736d6f7331616263'')]"
    by (simp add: cosmos_self_result_def)
  have d1: "newDate db_down_env (field (discloseOutput demo_self_result) ''expiryDate'') =
              Some 1924992000000"
    by (simp add: db_down_env_def demo_env_def demo_self_result_def demo_newDate_def field_def)
  have d2: "newDate cosmos_env (field (discloseOutput cosmos_self_result) ''expiryDate'') =
              Some 1704067200000"
    by (simp add: cosmos_env_def cosmos_self_result_def cosmos_newDate_def field_def)
  note t1 = best_effort_failures_are_swallowed [OF demo_verifier(2) nm v1 ok1 u1 d1, of empty_world]
  note t2 = best_effort_failures_are_swallowed [OF demo_verifier(3) nm v2 ok2 u2 d2, of empty_world]
  have p: "field self_body ''proof'' = JObj [(''a'', JArr [])]"
    by (simp add: self_body_def field_def)
  have f: "field [(''userIdentifier'', JStr ''u1''),
                  (''userDefinedData'', JStr ''7477696c6967687431616263'')] ''userIdentifier'' = JStr ''u1''"
    "field [(''userIdentifier'', JStr ''u1''),
            (''userDefinedData'', JStr ''636f736d6f7331616263'')] ''userDefinedData'' =
       JStr ''636f736d6f7331616263''"
    by (simp_all add: field_def)
  have q: "query_error db_down_env (policy_logged db_down_env demo_self_result 1924992000000 self_body empty_world)
     (InsertSelfcheck (JStr ''u1'') (JObj [(''a'', JArr [])])) = Some (Error ''connection refused'')"
    by (simp add: db_down_env_def)
  have hx: "Buffer_from_hex cosmos_env (JStr ''636f736d6f7331616263'') =
              Inr [99, 111, 115, 109, 111, 115, 49, 97, 98, 99]"
    by (simp add: Buffer_from_hex_def hex_val_def)
  have ts: "toString_utf8 [99, 111, 115, 109, 111, 115, 49, 97, 98, 99] = ''cosmos1abc''"
    by code_simp
  have sw: "\<not> startsWith ''cosmos1abc'' ''twilight''"
    by (simp add: startsWith_def)
  from t1 q have r1: "status (fst (part3_verify db_down_env self_body empty_world)) = 200 \<and>
     zkpass (snd (part3_verify db_down_env self_body empty_world)) = zkpass empty_world \<and>
     selfcheck (snd (part3_verify db_down_env self_body empty_world)) = selfcheck empty_world"
    by (simp add: p f)
  from t2 hx ts sw have r2: "status (fst (part3_verify cosmos_env self_body empty_world)) = 200 \<and>
     zkpass (snd (part3_verify cosmos_env self_body empty_world)) = zkpass empty_world"
    by (simp add: p f)
  show ?thesis
    using demo_verifier nm ok1 q hx ts sw r1 r2 by (simp add: empty_world_def)
qed

section \<open>The rows written on success\<close>

text \<open>
  C2 as stated fails: the verifier accepts the proof (\<^verbatim>\<open>isValid: true\<close>), the database accepts
  every statement, but the wallet address decoded from \<^verbatim>\<open>userDefinedData\<close> is
  \<^verbatim>\<open>cosmos1abc\<close>, so the handler of POST /api/verify answers 200 and leaves table zkpass
  empty.
\<close>

theorem valid_proof_without_record_counterexample:
  "truthy (field (isValidDetails cosmos_self_result) ''isValid'') \<and>
   selfBackendVerifier cosmos_env = Some cosmos_verify \<and>
   cosmos_verify (field self_body ''attestationId'') (field self_body ''proof'')
     (field self_body ''publicSignals'') (field self_body ''userContextData'') = Inr cosmos_self_result \<and>
   query_error cosmos_env empty_world (InsertZkpass (JStr ''cosmos1abc'') (JStr ''u1'') (JStr ''self'')) = None \<and>
   status (fst (part3_verify cosmos_env self_body empty_world)) = 200 \<and>
   zkpass (snd (part3_verify cosmos_env self_body empty_world)) = [] \<and>
   selfcheck (snd (part3_verify cosmos_env self_body empty_world)) = [(JStr ''u1'', JObj [(''a'', JArr [])])]"
proof -
  have a: "truthy (field (isValidDetails cosmos_self_result) ''isValid'')"
    by (simp add: cosmos_self_result_def field_def)
  have b: "cosmos_verify (field self_body ''attestationId'') (field self_body ''proof'')
     (field self_body ''publicSignals'') (field self_body ''userContextData'') = Inr cosmos_self_result"
    by (simp add: cosmos_verify_def)
  have c: "query_error cosmos_env empty_world
             (InsertZkpass (JStr ''cosmos1abc'') (JStr ''u1'') (JStr ''self'')) = None"
    by (simp add: cosmos_env_def demo_env_def)
  have d: "status (fst (part3_verify cosmos_env self_body empty_world)) = 200 \<and>
           zkpass (snd (part3_verify cosmos_env self_body empty_world)) = [] \<and>
           selfcheck (snd (part3_verify cosmos_env self_body empty_world)) =
             [(JStr ''u1'', JObj [(''a'', JArr [])])]"
    by code_simp
  from a b c d demo_verifier(3) show ?thesis
    by simp
qed

text \<open>
  C2, as amended: the handlers of src/unnamed/part_003 for POST /api/verify/zkpass and
  POST /api/verify, and both variants of POST /api/verify/self, when the database accepts
  the statements the handler issues.
  POST /api/verify/zkpass: when the request passes the validation and the gate
  \<^verbatim>\<open>serverUID == clientUID && verified == true\<close> holds, exactly one row is appended to table
  zkpass: \<^verbatim>\<open>(cosmosAddress ?? null, clientUID || serverUID, "zkpass")\<close>.
  POST /api/verify: for a valid outcome with \<^verbatim>\<open>userData\<close>, an expiry date that is a date, and
  a \<^verbatim>\<open>userDefinedData\<close> whose bytes are ASCII and spell an address that starts with
  \<^verbatim>\<open>twilight\<close>, exactly one row is appended: \<^verbatim>\<open>(address, userIdentifier, "self")\<close>.
  POST /api/verify/self: when \<^verbatim>\<open>cosmosAddress\<close> and \<^verbatim>\<open>uuid\<close> are truthy and table selfcheck holds
  a row for \<^verbatim>\<open>uuid\<close>, exactly one row is appended: \<^verbatim>\<open>(cosmosAddress, uuid, "self")\<close>.
\<close>

theorem one_record_with_provider:
  "(\<not> zkpass_missing body \<and>
    zk_verify e (field body ''proofs'') (zkpass_qr body) (field body ''scope'')
      (devMode_or_true (field body ''devMode'')) = Inr z \<and>
    zkpass_gate e (uniqueIdentifier z) (field body ''uniqueIdentifier'') (verified z) = Inr True \<and>
    (\<forall>w'. query_error e w'
            (InsertZkpass (nullish_or (field body ''cosmosAddress'') JNull)
               (js_or (field body ''uniqueIdentifier'') (uniqueIdentifier z)) (JStr ''zkpass'')) = None) \<longrightarrow>
      zkpass (snd (part3_verify_zkpass e body w)) =
        zkpass w @ [(nullish_or (field body ''cosmosAddress'') JNull,
                     js_or (field body ''uniqueIdentifier'') (uniqueIdentifier z),
                     JStr ''zkpass'')]) \<and>
   (selfBackendVerifier e = Some verify \<and> \<not> self_missing body \<and>
    verify (field body ''attestationId'') (field body ''proof'') (field body ''publicSignals'')
      (field body ''userContextData'') = Inr r \<and>
    truthy (field (isValidDetails r) ''isValid'') \<and>
    userData r = Some ud \<and>
    newDate e (field (discloseOutput r) ''expiryDate'') = Some t \<and>
    Buffer_from_hex e (field ud ''userDefinedData'') = Inr bytes \<and>
    list_all (\<lambda>b. b < 128) bytes \<and>
    startsWith (toString_utf8 bytes) ''twilight'' \<and>
    (\<forall>w'. query_error e w' (InsertSelfcheck (field ud ''userIdentifier'') (field body ''proof'')) = None) \<and>
    (\<forall>w'. query_error e w'
            (InsertZkpass (JStr (toString_utf8 bytes)) (field ud ''userIdentifier'') (JStr ''self'')) = None) \<longrightarrow>
      zkpass (snd (part3_verify e body w)) =
        zkpass w @ [(JStr (toString_utf8 bytes), field ud ''userIdentifier'', JStr ''self'')]) \<and>
   (truthy (field body ''cosmosAddress'') \<and> truthy (field body ''uuid'') \<and>
    field body ''uuid'' \<in> fst ` set (selfcheck w) \<and>
    (\<forall>w'. query_error e w' (CountSelfcheck (field body ''uuid'')) = None) \<and>
    (\<forall>w'. query_error e w'
            (InsertZkpass (field body ''cosmosAddress'') (field body ''uuid'') (JStr ''self'')) = None) \<longrightarrow>
      zkpass (snd (part3_verify_self e body w)) =
        zkpass w @ [(field body ''cosmosAddress'', field body ''uuid'', JStr ''self'')] \<and>
      zkpass (snd (server_verify_self e body w)) =
        zkpass w @ [(field body ''cosmosAddress'', field body ''uuid'', JStr ''self'')])"
proof (intro conjI impI)
  assume h: "\<not> zkpass_missing body \<and>
    zk_verify e (field body ''proofs'') (zkpass_qr body) (field body ''scope'')
      (devMode_or_true (field body ''devMode'')) = Inr z \<and>
    zkpass_gate e (uniqueIdentifier z) (field body ''uniqueIdentifier'') (verified z) = Inr True \<and>
    (\<forall>w'. query_error e w'
            (InsertZkpass (nullish_or (field body ''cosmosAddress'') JNull)
               (js_or (field body ''uniqueIdentifier'') (uniqueIdentifier z)) (JStr ''zkpass'')) = None)"
  then have "snd (part3_verify_zkpass e body w) =
               snd (saveVerification e (js_or (field body ''uniqueIdentifier'') (uniqueIdentifier z))
                      (nullish_or (field body ''cosmosAddress'') JNull) (JStr ''zkpass'')
                      (zkpass_called body w))"
    unfolding part3_verify_zkpass_def using zkpass_handler_world [of body e z True] by simp
  then show "zkpass (snd (part3_verify_zkpass e body w)) =
              zkpass w @ [(nullish_or (field body ''cosmosAddress'') JNull,
                           js_or (field body ''uniqueIdentifier'') (uniqueIdentifier z),
                           JStr ''zkpass'')]"
    using h by (simp add: saveVerification_zkpass)
next
  assume h: "selfBackendVerifier e = Some verify \<and> \<not> self_missing body \<and>
    verify (field body ''attestationId'') (field body ''proof'') (field body ''publicSignals'')
      (field body ''userContextData'') = Inr r \<and>
    truthy (field (isValidDetails r) ''isValid'') \<and>
    userData r = Some ud \<and>
    newDate e (field (discloseOutput r) ''expiryDate'') = Some t \<and>
    Buffer_from_hex e (field ud ''userDefinedData'') = Inr bytes \<and>
    list_all (\<lambda>b. b < 128) bytes \<and>
    startsWith (toString_utf8 bytes) ''twilight'' \<and>
    (\<forall>w'. query_error e w' (InsertSelfcheck (field ud ''userIdentifier'') (field body ''proof'')) = None) \<and>
    (\<forall>w'. query_error e w'
            (InsertZkpass (JStr (toString_utf8 bytes)) (field ud ''userIdentifier'') (JStr ''self'')) = None)"
  then have "snd (part3_verify e body w) =
               part3_best_effort e r (field body ''proof'') (policy_logged e r t body w)"
    using part3_verify_valid [of e verify body r ud t w] by (simp add: policy_logged_def)
  then show "zkpass (snd (part3_verify e body w)) =
              zkpass w @ [(JStr (toString_utf8 bytes), field ud ''userIdentifier'', JStr ''self'')]"
    using h by (simp add: part3_best_effort_rows opt_field_def policy_logged_def)
next
  assume h: "truthy (field body ''cosmosAddress'') \<and> truthy (field body ''uuid'') \<and>
    field body ''uuid'' \<in> fst ` set (selfcheck w) \<and>
    (\<forall>w'. query_error e w' (CountSelfcheck (field body ''uuid'')) = None) \<and>
    (\<forall>w'. query_error e w'
            (InsertZkpass (field body ''cosmosAddress'') (field body ''uuid'') (JStr ''self'')) = None)"
  then show "zkpass (snd (part3_verify_self e body w)) =
              zkpass w @ [(field body ''cosmosAddress'', field body ''uuid'', JStr ''self'')]"
    unfolding part3_verify_self_def by (intro binding_found(2)) simp_all
  from h show "zkpass (snd (server_verify_self e body w)) =
              zkpass w @ [(field body ''cosmosAddress'', field body ''uuid'', JStr ''self'')]"
    unfolding server_verify_self_def by (intro binding_found(2)) simp_all
qed

theorem one_record_with_provider_witness:
  "\<not> zkpass_missing zk_body_wallet \<and>
   zkpass_gate demo_env (JStr ''abc'') (field zk_body_wallet ''uniqueIdentifier'') (JBool True) = Inr True \<and>
   (\<forall>w'. query_error demo_env w'
           (InsertZkpass (JStr ''twilight1abc'') (JStr ''abc'') (JStr ''zkpass'')) = None) \<and>
   zkpass (snd (part3_verify_zkpass demo_env zk_body_wallet empty_world)) =
     [(JStr ''twilight1abc'', JStr ''abc'', JStr ''zkpass'')] \<and>
   selfBackendVerifier demo_env = Some demo_verify \<and>
   \<not> self_missing self_body \<and>
   truthy (field (isValidDetails demo_self_result) ''isValid'') \<and>
   list_all (\<lambda>b. b < 128) [116, 119, 105, 108, 105, 103, 104, 116, 49, 97, 98, 99 :: nat] \<and>
   toString_utf8 [116, 119, 105, 108, 105, 103, 104, 116, 49, 97, 98, 99] = ''twilight1abc'' \<and>
   startsWith ''twilight1abc'' ''twilight'' \<and>
   (\<forall>w'. query_error demo_env w' (InsertSelfcheck (JStr ''u1'') (field self_body ''proof'')) = None) \<and>
   (\<forall>w'. query_error demo_env w'
           (InsertZkpass (JStr ''twilight1abc'') (JStr ''u1'') (JStr ''self'')) = None) \<and>
   zkpass (snd (part3_verify demo_env self_body empty_world)) =
     [(JStr ''twilight1abc'', JStr ''u1'', JStr ''self'')] \<and>
   truthy (field binding_body ''cosmosAddress'') \<and>
   truthy (field binding_body ''uuid'') \<and>
   field binding_body ''uuid'' \<in> fst ` set (selfcheck audited_world) \<and>
   (\<forall>w'. query_error demo_env w' (CountSelfcheck (JStr ''u1'')) = None) \<and>
   zkpass (snd (part3_verify_self demo_env binding_body audited_world)) =
     [(JStr ''twilight1abc'', JStr ''u1'', JStr ''self'')] \<and>
   zkpass (snd (server_verify_self demo_env binding_body audited_world)) =
     [(JStr ''twilight1abc'', JStr ''u1'', JStr ''self'')]"
proof -
  have db: "\<And>w q. query_error demo_env w q = None"
    by (simp add: demo_env_def)
  note t1 = one_record_with_provider [where e = demo_env and body = zk_body_wallet
      and z = demo_zk_result and w = empty_world]
  note t2 = one_record_with_provider [where e = demo_env and body = self_body
      and verify = demo_verify and r = demo_self_result
      and ud = "[(''userIdentifier'', JStr ''u1''), (''userDefinedData'', JStr ''7477696c6967687431616263'')]"
      and t = 1924992000000 and bytes = "[116, 119, 105, 108, 105, 103, 104, 116, 49, 97, 98, 99]"
      and w = empty_world]
  note t3 = one_record_with_provider [where e = demo_env and body = binding_body
      and w = audited_world]
  have z1: "\<not> zkpass_missing zk_body_wallet"
    by (simp add: zkpass_missing_def zkpass_qr_def zk_body_wallet_def field_def nullish_or_def)
  have z2: "zk_verify demo_env (field zk_body_wallet ''proofs'') (zkpass_qr zk_body_wallet)
              (field zk_body_wallet ''scope'') (devMode_or_true (field zk_body_wallet ''devMode'')) =
            Inr demo_zk_result"
    by (simp add: demo_env_def)
  have z3: "uniqueIdentifier demo_zk_result = JStr ''abc''" "verified demo_zk_result = JBool True"
    by (simp_all add: demo_zk_result_def)
  have z4: "zkpass_gate demo_env (JStr ''abc'') (field zk_body_wallet ''uniqueIdentifier'') (JBool True) =
              Inr True"
    by (simp add: zkpass_gate_def loose_eq_def zk_body_wallet_def field_def)
  have z5: "nullish_or (field zk_body_wallet ''cosmosAddress'') JNull = JStr ''twilight1abc''"
    "js_or (field zk_body_wallet ''uniqueIdentifier'') (JStr ''abc'') = JStr ''abc''"
    by (simp_all add: zk_body_wallet_def field_def nullish_or_def js_or_def)
  from t1 z1 z2 z3 z4 z5 db
  have r1: "zkpass (snd (part3_verify_zkpass demo_env zk_body_wallet empty_world)) =
              [(JStr ''twilight1abc'', JStr ''abc'', JStr ''zkpass'')]"
    by (simp add: empty_world_def)
  have nm: "\<not> self_missing self_body"
    by (simp add: self_missing_def self_body_def field_def)
  have v1: "demo_verify (field self_body ''attestationId'') (field self_body ''proof'')
              (field self_body ''publicSignals'') (field self_body ''userContextData'') =
            Inr demo_self_result"
    by (simp add: demo_verify_def)
  have ok1: "truthy (field (isValidDetails demo_self_result) ''isValid'')"
    by (simp add: demo_self_result_def field_def)
  have u1: "userData demo_self_result =
              Some [(''userIdentifier'', JStr ''u1''),
                    (''userDefinedData'', JStr ''7477696c6967687431616263'')]"
    by (simp add: demo_self_result_def)
  have d1: "newDate demo_env (field (discloseOutput demo_self_result) ''expiryDate'') =
              Some 1924992000000"
    by (simp add: demo_env_def demo_self_result_def demo_newDate_def field_def)
  have hx: "Buffer_from_hex demo_env
              (field [(''userIdentifier'', JStr ''u1''),
                      (''userDefinedData'', JStr ''7477696c6967687431616263'')] ''userDefinedData'') =
              Inr [116, 119, 105, 108, 105, 103, 104, 116, 49, 97, 98, 99]"
    by (simp add: Buffer_from_hex_def hex_val_def field_def)
  have asc: "list_all (\<lambda>b. b < 128) [116, 119, 105, 108, 105, 103, 104, 116, 49, 97, 98, 99 :: nat]"
    by simp
  have ts: "toString_utf8 [116, 119, 105, 108, 105, 103, 104, 116, 49, 97, 98, 99] = ''twilight1abc''"
    by code_simp
  have sw: "startsWith ''twilight1abc'' ''twilight''"
    by (simp add: startsWith_def)
  from t2 demo_verifier(1) nm v1 ok1 u1 d1 hx asc ts sw db
  have r2: "zkpass (snd (part3_verify demo_env self_body empty_world)) =
              [(JStr ''twilight1abc'', JStr ''u1'', JStr ''self'')]"
    by (simp add: field_def empty_world_def)
  have b: "truthy (field binding_body ''cosmosAddress'')" "truthy (field binding_body ''uuid'')"
    "field binding_body ''uuid'' \<in> fst ` set (selfcheck audited_world)"
    by (simp_all add: binding_body_def field_def audited_world_def)
  from t3 b db
  have r3: "zkpass (snd (part3_verify_self demo_env binding_body audited_world)) =
              [(JStr ''twilight1abc'', JStr ''u1'', JStr ''self'')]"
    "zkpass (snd (server_verify_self demo_env binding_body audited_world)) =
              [(JStr ''twilight1abc'', JStr ''u1'', JStr ''self'')]"
    by (simp_all add: binding_body_def field_def audited_world_def)
  show ?thesis
    using db z1 z4 r1 demo_verifier(1) nm ok1 asc ts sw r2 b r3 by simp
qed

section \<open>The policy predicates\<close>

lemma MonthFromTime_range: "0 \<le> MonthFromTime t \<and> MonthFromTime t \<le> 11"
  by (simp add: MonthFromTime_def Let_def)

lemma day_within_year_split:
  "DayWithinYear t = month_start (MonthFromTime t) (InLeapYear t) + DateFromTime t - 1"
  by (simp add: MonthFromTime_def DateFromTime_def month_start_def Let_def)

lemma month_start_shift:
  "0 \<le> m \<Longrightarrow> m \<le> 11 \<Longrightarrow> month_start m l' - month_start m l = (if m < 2 then 0 else l' - l)"
  by (simp add: month_start_def)

lemma MakeDay_in_year:
  "0 \<le> m \<Longrightarrow> m \<le> 11 \<Longrightarrow>
     MakeDay y m d = DayFromYear y + month_start m (if DaysInYear y = 366 then 1 else 0) + d - 1"
  by (simp add: MakeDay_def Let_def)

text \<open>The same month and date one year later is 365 or 366 days later.\<close>

lemma next_year_day:
  "Day t + 365 \<le> MakeDay (YearFromTime t + 1) (MonthFromTime t) (DateFromTime t) \<and>
   MakeDay (YearFromTime t + 1) (MonthFromTime t) (DateFromTime t) \<le> Day t + 366"
proof -
  let ?y = "YearFromTime t" and ?m = "MonthFromTime t" and ?d = "DateFromTime t"
  let ?l = "InLeapYear t" and ?l' = "if DaysInYear (?y + 1) = 366 then 1 else (0::int)"
  have m: "0 \<le> ?m" "?m \<le> 11"
    using MonthFromTime_range [of t] by simp_all
  have day: "Day t = DayFromYear ?y + month_start ?m ?l + ?d - 1"
    using day_within_year_split [of t] by (simp add: DayWithinYear_def)
  have mk: "MakeDay (?y + 1) ?m ?d = DayFromYear ?y + DaysInYear ?y + month_start ?m ?l' + ?d - 1"
    by (simp add: MakeDay_in_year [OF m] DayFromYear_step)
  have diff: "MakeDay (?y + 1) ?m ?d - Day t = DaysInYear ?y + (if ?m < 2 then 0 else ?l' - ?l)"
    using month_start_shift [OF m, of ?l' ?l] by (simp add: day mk)
  have l: "DaysInYear ?y = 365 + ?l"
    using DaysInYear_range [of ?y] by (auto simp: InLeapYear_def)
  have l': "?l' = 0 \<or> ?l' = 1"
    by simp
  have l0: "?l = 0 \<or> ?l = 1"
    by (simp add: InLeapYear_def)
  from diff l l' l0 show ?thesis
    by (cases "?m < 2") auto
qed

lemma time_split: "t = Day t * msPerDay + TimeWithinDay t"
  by (simp add: Day_def TimeWithinDay_def)

lemma next_year_time:
  "t + 365 * msPerDay \<le>
     MakeDate (MakeDay (YearFromTime t + 1) (MonthFromTime t) (DateFromTime t)) (TimeWithinDay t) \<and>
   MakeDate (MakeDay (YearFromTime t + 1) (MonthFromTime t) (DateFromTime t)) (TimeWithinDay t) \<le>
     t + 366 * msPerDay"
proof -
  let ?n = "MakeDay (YearFromTime t + 1) (MonthFromTime t) (DateFromTime t)"
  have pos: "0 \<le> msPerDay"
    by (simp add: msPerDay_def)
  have lo: "(Day t + 365) * msPerDay \<le> ?n * msPerDay"
    using next_year_day [of t] pos by (intro mult_right_mono) simp_all
  have hi: "?n * msPerDay \<le> (Day t + 366) * msPerDay"
    using next_year_day [of t] pos by (intro mult_right_mono) simp_all
  have "t + 365 * msPerDay = (Day t + 365) * msPerDay + TimeWithinDay t"
    using time_split [of t] by (simp add: algebra_simps)
  moreover have "t + 366 * msPerDay = (Day t + 366) * msPerDay + TimeWithinDay t"
    using time_split [of t] by (simp add: algebra_simps)
  ultimately show ?thesis
    using lo hi by (simp add: MakeDate_def)
qed

text \<open>With the offsets of the local time zone bounded by \<open>k\<close>.\<close>

lemma oneYearFromNow_bounds:
  assumes tz: "\<And>t u. \<bar>LocalTZA e t u\<bar> \<le> k"
    and k: "k \<le> msPerDay"
    and lo: "0 \<le> now e" and hi: "now e \<le> 8000000000000000"
  shows "\<exists>y. oneYearFromNow e = Some y \<and> now e + 365 * msPerDay - 2 * k \<le> y \<and>
              y \<le> now e + 366 * msPerDay + 2 * k"
proof -
  let ?lt = "LocalTime e (now e)"
  let ?nd = "MakeDate (MakeDay (YearFromTime ?lt + 1) (MonthFromTime ?lt) (DateFromTime ?lt))
               (TimeWithinDay ?lt)"
  let ?u = "UTC e ?nd"
  have a: "\<bar>?lt - now e\<bar> \<le> k"
    using tz [of "now e" True] by (simp add: LocalTime_def)
  have b: "\<bar>?nd - ?u\<bar> \<le> k"
    using tz [of ?nd False] by (simp add: UTC_def)
  note n = next_year_time [of ?lt]
  have lo': "now e + 365 * msPerDay - 2 * k \<le> ?u"
    using a b n by linarith
  have hi': "?u \<le> now e + 366 * msPerDay + 2 * k"
    using a b n by linarith
  have k0: "0 \<le> k"
    using tz [of 0 True] by linarith
  have "\<bar>?u\<bar> \<le> 8640000000000000"
    using lo' hi' lo hi k k0 by (simp add: msPerDay_def)
  then have "oneYearFromNow e = Some ?u"
    by (simp add: oneYearFromNow_def setFullYear_def getFullYear_def TimeClip_def Let_def)
  with lo' hi' show ?thesis
    by simp
qed

lemma Array_includes_strings:
  "Array_includes (map JStr xs) v \<longleftrightarrow> (\<exists>c \<in> set xs. v = JStr c)"
  by (induction xs) (auto simp: strict_eq_def)

text \<open>
  C7. The two predicates are functions of their arguments alone (the expiry date, and the
  clock and time zone of the environment; the issuing country). \<open>isExpiryValid\<close> is true
  exactly when the expiry date is a date strictly later than \<open>oneYearFromNow\<close>, the same
  local calendar date and time of day one year after now: with the offsets of the local
  time zone within a day, that instant lies between 363 and 368 days after now (between 365
  and 366 days when the zone is UTC), so an expiry 400 days from now passes and an expiry 30
  days from now fails. \<open>isCountryAllowed\<close> is membership in the allow list.
\<close>

theorem policy_predicates:
  assumes tz: "\<And>t u. \<bar>LocalTZA e t u\<bar> \<le> msPerDay"
    and lo: "0 \<le> now e" and hi: "now e \<le> 8000000000000000"
  shows "(\<exists>y. oneYearFromNow e = Some y \<and>
               now e + 363 * msPerDay \<le> y \<and> y \<le> now e + 368 * msPerDay \<and>
               ((\<forall>t u. LocalTZA e t u = 0) \<longrightarrow>
                  now e + 365 * msPerDay \<le> y \<and> y \<le> now e + 366 * msPerDay) \<and>
               (\<forall>x. isExpiryValid e (Some x) \<longleftrightarrow> y < x)) \<and>
         isExpiryValid e (Some (now e + 400 * msPerDay)) \<and>
         \<not> isExpiryValid e (Some (now e + 30 * msPerDay)) \<and>
         \<not> isExpiryValid e None \<and>
         (\<forall>c. isCountryAllowed c \<longleftrightarrow> c \<in> set allowedCountries) \<and>
         (\<forall>xs c. Array_includes (map JStr xs) (JStr c) \<longleftrightarrow> c \<in> set xs)"
proof -
  obtain y where y: "oneYearFromNow e = Some y"
    and ylo: "now e + 365 * msPerDay - 2 * msPerDay \<le> y"
    and yhi: "y \<le> now e + 366 * msPerDay + 2 * msPerDay"
    using oneYearFromNow_bounds [OF tz _ lo hi] by auto
  have utc: "(\<forall>t u. LocalTZA e t u = 0) \<longrightarrow>
               now e + 365 * msPerDay \<le> y \<and> y \<le> now e + 366 * msPerDay"
  proof
    assume z: "\<forall>t u. LocalTZA e t u = 0"
    have "\<exists>y'. oneYearFromNow e = Some y' \<and> now e + 365 * msPerDay - 2 * 0 \<le> y' \<and>
                y' \<le> now e + 366 * msPerDay + 2 * 0"
      by (rule oneYearFromNow_bounds [OF _ _ lo hi]) (simp_all add: z msPerDay_def)
    with y show "now e + 365 * msPerDay \<le> y \<and> y \<le> now e + 366 * msPerDay"
      by simp
  qed
  have gt: "\<And>x. isExpiryValid e (Some x) \<longleftrightarrow> y < x"
    by (simp add: isExpiryValid_def date_gt_def y)
  have pos: "0 < msPerDay"
    by (simp add: msPerDay_def)
  have a: "isExpiryValid e (Some (now e + 400 * msPerDay))"
    using yhi pos by (simp add: gt)
  have b: "\<not> isExpiryValid e (Some (now e + 30 * msPerDay))"
    using ylo pos by (simp add: gt)
  have c: "\<not> isExpiryValid e None"
    by (simp add: isExpiryValid_def date_gt_def)
  have d: "\<And>c. isCountryAllowed c \<longleftrightarrow> c \<in> set allowedCountries"
    by (auto simp: isCountryAllowed_def allowedCountries_def strict_eq_def)
  have f: "\<And>xs c. Array_includes (map JStr xs) (JStr c) \<longleftrightarrow> c \<in> set xs"
    by (auto simp: Array_includes_strings)
  from y ylo yhi utc gt a b c d f show ?thesis
    by auto
qed

theorem policy_predicates_witness:
  "\<bar>LocalTZA demo_env 5 True\<bar> \<le> msPerDay \<and>
   0 \<le> now demo_env \<and> now demo_env \<le> 8000000000000000 \<and>
   oneYearFromNow demo_env = Some 1731622400000 \<and>
   isExpiryValid demo_env (Some (now demo_env + 400 * msPerDay)) \<and>
   \<not> isExpiryValid demo_env (Some (now demo_env + 30 * msPerDay)) \<and>
   isCountryAllowed (JStr ''MYS'') \<and>
   \<not> isCountryAllowed (JStr ''FRA'')"
proof -
  have tz: "\<And>t u. \<bar>LocalTZA demo_env t u\<bar> \<le> msPerDay"
    by (simp add: demo_env_def msPerDay_def)
  have lo: "0 \<le> now demo_env" and hi: "now demo_env \<le> 8000000000000000"
    by (simp_all add: demo_env_def)
  note t = policy_predicates [OF tz lo hi]
  have o: "oneYearFromNow demo_env = Some 1731622400000"
    by code_simp
  from t have c: "isCountryAllowed (JStr ''MYS'')" "\<not> isCountryAllowed (JStr ''FRA'')"
    by (simp_all add: allowedCountries_def)
  from t have x: "isExpiryValid demo_env (Some (now demo_env + 400 * msPerDay))"
    "\<not> isExpiryValid demo_env (Some (now demo_env + 30 * msPerDay))"
    by blast+
  from tz [of 5 True] lo hi o x c show ?thesis
    by simp
qed

section \<open>verifySignature\<close>

lemma base64_bytes_length: "length (base64_bytes xs) = (3 * length xs) div 4"
  by (induction xs rule: base64_bytes.induct) simp_all

lemma verifySignature_total:
  "\<exists>r. verifySignature l a s p m = Inr r"
  by (simp add: verifySignature_def split: sum.splits)

lemma verifySignature_ok_only_if:
  assumes "verifySignature l a s p m = Inr r" and "ok r"
  shows "\<exists>addr msg sig64 pub64 mb.
           a = JStr addr \<and> m = JStr msg \<and>
           assertBase64 ''signatureB64'' s = Inr sig64 \<and>
           assertBase64 ''pubkeyB64'' p = Inr pub64 \<and>
           toAscii l msg = Inr mb \<and>
           length (base64_decode pub64) = 33 \<and> length (base64_decode sig64) = 64 \<and>
           verifyADR36Amino l (hrp_of addr) addr mb (base64_decode pub64) (base64_decode sig64)
             ''secp256k1'' = Inr True"
proof -
  from assms have t: "verifySignature_try l a s p m = Inr True"
    by (auto simp: verifySignature_def split: sum.splits)
  then obtain addr where a: "a = JStr addr"
    by (cases a) (simp_all add: verifySignature_try_def)
  from t a obtain msg where m: "m = JStr msg"
    by (cases m) (simp_all add: verifySignature_try_def)
  from t a m obtain sig64 where s: "assertBase64 ''signatureB64'' s = Inr sig64"
    by (cases "assertBase64 ''signatureB64'' s") (simp_all add: verifySignature_try_def)
  from t a m s obtain pub64 where p: "assertBase64 ''pubkeyB64'' p = Inr pub64"
    by (cases "assertBase64 ''pubkeyB64'' p") (simp_all add: verifySignature_try_def)
  from t a m s p obtain mb where mb: "toAscii l msg = Inr mb"
    by (cases "toAscii l msg") (simp_all add: verifySignature_try_def Let_def)
  from t a m s p mb have "length (base64_decode pub64) = 33 \<and> length (base64_decode sig64) = 64 \<and>
           verifyADR36Amino l (hrp_of addr) addr mb (base64_decode pub64) (base64_decode sig64)
             ''secp256k1'' = Inr True"
    by (simp add: verifySignature_try_def Let_def split: if_splits)
  with a m s p mb show ?thesis
    by blast
qed

lemma verifySignature_thrown:
  assumes "verifySignature_try l a s p m = Inl err"
  shows "\<exists>msg. verifySignature l a s p m = Inr \<lparr>ok = False, error = Some msg\<rparr> \<and> msg \<noteq> []"
  using assms by (cases err) (simp_all add: verifySignature_def)

lemma verifySignature_try_malformed:
  assumes "(\<exists>err. assertBase64 ''signatureB64'' s = Inl err) \<or>
           (\<exists>err. assertBase64 ''pubkeyB64'' p = Inl err) \<or>
           (\<exists>pub64. assertBase64 ''pubkeyB64'' p = Inr pub64 \<and> length (base64_decode pub64) \<noteq> 33) \<or>
           (\<exists>sig64. assertBase64 ''signatureB64'' s = Inr sig64 \<and> length (base64_decode sig64) \<noteq> 64)"
  shows "\<exists>err. verifySignature_try l a s p m = Inl err"
  using assms
  by (auto simp: verifySignature_try_def Let_def split: jsval.splits sum.splits)

text \<open>
  C9. \<^verbatim>\<open>verifySignature\<close> returns an object for every quadruple of arguments and never throws.
  It answers \<^verbatim>\<open>ok: true\<close> only when both base64 strings pass \<^verbatim>\<open>assertBase64\<close>, the public key
  decodes to 33 bytes, the signature to 64 bytes, and \<^verbatim>\<open>verifyADR36Amino\<close> returned true. A
  signature or public key that \<^verbatim>\<open>assertBase64\<close> refuses, a public key that is not 33 bytes or
  a signature that is not 64 bytes gives \<^verbatim>\<open>ok: false\<close> with a non-empty error message. For
  string arguments, a message \<^verbatim>\<open>toAscii\<close> accepts and a 33-byte public key, a 65-byte
  signature gives the error \<^verbatim>\<open>signature must be 64 bytes (r||s). Got 65\<close>.
\<close>

theorem verifySignature_fails_closed:
  "(\<exists>r. verifySignature l a s p m = Inr r \<and>
        (ok r \<longrightarrow>
           (\<exists>addr msg sig64 pub64 mb.
              a = JStr addr \<and> m = JStr msg \<and>
              assertBase64 ''signatureB64'' s = Inr sig64 \<and>
              assertBase64 ''pubkeyB64'' p = Inr pub64 \<and>
              toAscii l msg = Inr mb \<and>
              length (base64_decode pub64) = 33 \<and> length (base64_decode sig64) = 64 \<and>
              verifyADR36Amino l (hrp_of addr) addr mb (base64_decode pub64) (base64_decode sig64)
                ''secp256k1'' = Inr True)) \<and>
        ((\<exists>err. assertBase64 ''signatureB64'' s = Inl err) \<or>
         (\<exists>err. assertBase64 ''pubkeyB64'' p = Inl err) \<or>
         (\<exists>pub64. assertBase64 ''pubkeyB64'' p = Inr pub64 \<and> length (base64_decode pub64) \<noteq> 33) \<or>
         (\<exists>sig64. assertBase64 ''signatureB64'' s = Inr sig64 \<and> length (base64_decode sig64) \<noteq> 64) \<longrightarrow>
           \<not> ok r \<and> (\<exists>msg. error r = Some msg \<and> msg \<noteq> []))) \<and>
   (a = JStr address \<and> m = JStr mtext \<and>
    assertBase64 ''signatureB64'' s = Inr sg \<and>
    assertBase64 ''pubkeyB64'' p = Inr pk \<and>
    toAscii l mtext = Inr bytes \<and>
    length (base64_decode pk) = 33 \<and> length (base64_decode sg) = 65 \<longrightarrow>
      verifySignature l a s p m =
        Inr \<lparr>ok = False, error = Some ''signature must be 64 bytes (r||s). Got 65''\<rparr>)"
proof (intro conjI impI)
  obtain r where r: "verifySignature l a s p m = Inr r"
    using verifySignature_total by blast
  have closed: "ok r \<longrightarrow>
           (\<exists>addr msg sig64 pub64 mb.
              a = JStr addr \<and> m = JStr msg \<and>
              assertBase64 ''signatureB64'' s = Inr sig64 \<and>
              assertBase64 ''pubkeyB64'' p = Inr pub64 \<and>
              toAscii l msg = Inr mb \<and>
              length (base64_decode pub64) = 33 \<and> length (base64_decode sig64) = 64 \<and>
              verifyADR36Amino l (hrp_of addr) addr mb (base64_decode pub64) (base64_decode sig64)
                ''secp256k1'' = Inr True)"
    using verifySignature_ok_only_if [OF r] by blast
  have bad: "(\<exists>err. assertBase64 ''signatureB64'' s = Inl err) \<or>
         (\<exists>err. assertBase64 ''pubkeyB64'' p = Inl err) \<or>
         (\<exists>pub64. assertBase64 ''pubkeyB64'' p = Inr pub64 \<and> length (base64_decode pub64) \<noteq> 33) \<or>
         (\<exists>sig64. assertBase64 ''signatureB64'' s = Inr sig64 \<and> length (base64_decode sig64) \<noteq> 64) \<longrightarrow>
           \<not> ok r \<and> (\<exists>msg. error r = Some msg \<and> msg \<noteq> [])"
  proof
    assume "(\<exists>err. assertBase64 ''signatureB64'' s = Inl err) \<or>
         (\<exists>err. assertBase64 ''pubkeyB64'' p = Inl err) \<or>
         (\<exists>pub64. assertBase64 ''pubkeyB64'' p = Inr pub64 \<and> length (base64_decode pub64) \<noteq> 33) \<or>
         (\<exists>sig64. assertBase64 ''signatureB64'' s = Inr sig64 \<and> length (base64_decode sig64) \<noteq> 64)"
    then obtain err where "verifySignature_try l a s p m = Inl err"
      using verifySignature_try_malformed by blast
    then obtain msg where "verifySignature l a s p m = Inr \<lparr>ok = False, error = Some msg\<rparr>"
      and "msg \<noteq> []"
      using verifySignature_thrown by blast
    with r show "\<not> ok r \<and> (\<exists>msg. error r = Some msg \<and> msg \<noteq> [])"
      by auto
  qed
  from r closed bad
  show "\<exists>r. verifySignature l a s p m = Inr r \<and>
        (ok r \<longrightarrow>
           (\<exists>addr msg sig64 pub64 mb.
              a = JStr addr \<and> m = JStr msg \<and>
              assertBase64 ''signatureB64'' s = Inr sig64 \<and>
              assertBase64 ''pubkeyB64'' p = Inr pub64 \<and>
              toAscii l msg = Inr mb \<and>
              length (base64_decode pub64) = 33 \<and> length (base64_decode sig64) = 64 \<and>
              verifyADR36Amino l (hrp_of addr) addr mb (base64_decode pub64) (base64_decode sig64)
                ''secp256k1'' = Inr True)) \<and>
        ((\<exists>err. assertBase64 ''signatureB64'' s = Inl err) \<or>
         (\<exists>err. assertBase64 ''pubkeyB64'' p = Inl err) \<or>
         (\<exists>pub64. assertBase64 ''pubkeyB64'' p = Inr pub64 \<and> length (base64_decode pub64) \<noteq> 33) \<or>
         (\<exists>sig64. assertBase64 ''signatureB64'' s = Inr sig64 \<and> length (base64_decode sig64) \<noteq> 64) \<longrightarrow>
           \<not> ok r \<and> (\<exists>msg. error r = Some msg \<and> msg \<noteq> []))"
    by blast
next
  assume h: "a = JStr address \<and> m = JStr mtext \<and>
    assertBase64 ''signatureB64'' s = Inr sg \<and>
    assertBase64 ''pubkeyB64'' p = Inr pk \<and>
    toAscii l mtext = Inr bytes \<and>
    length (base64_decode pk) = 33 \<and> length (base64_decode sg) = 65"
  have n: "show_nat 65 = ''65''"
    by code_simp
  from h show "verifySignature l a s p m =
        Inr \<lparr>ok = False, error = Some ''signature must be 64 bytes (r||s). Got 65''\<rparr>"
    by (simp add: verifySignature_def verifySignature_try_def Let_def n)
qed

theorem verifySignature_fails_closed_witness:
  "assertBase64 ''signatureB64'' (JStr signature_65) = Inr signature_65 \<and>
   assertBase64 ''pubkeyB64'' (JStr pubkey_33) = Inr pubkey_33 \<and>
   toAscii demo_libs ''hello'' = Inr [104, 101, 108, 108, 111] \<and>
   length (base64_decode pubkey_33) = 33 \<and>
   length (base64_decode signature_65) = 65 \<and>
   verifySignature demo_libs (JStr ''twilight1abc'') (JStr signature_65) (JStr pubkey_33) (JStr ''hello'') =
     Inr \<lparr>ok = False, error = Some ''signature must be 64 bytes (r||s). Got 65''\<rparr> \<and>
   assertBase64 ''signatureB64'' (JStr ''!!!!'') = Inl (Error ''signatureB64 is not valid base64'') \<and>
   verifySignature demo_libs (JStr ''twilight1abc'') (JStr ''!!!!'') (JStr pubkey_33) (JStr ''hello'') =
     Inr \<lparr>ok = False, error = Some ''signatureB64 is not valid base64''\<rparr>"
proof -
  have h1: "assertBase64 ''signatureB64'' (JStr signature_65) = Inr signature_65"
    by code_simp
  have h2: "assertBase64 ''pubkeyB64'' (JStr pubkey_33) = Inr pubkey_33"
    by code_simp
  have h3: "toAscii demo_libs ''hello'' = Inr [104, 101, 108, 108, 111]"
    by code_simp
  have h4: "length (base64_decode pubkey_33) = 33"
    by code_simp
  have h5: "length (base64_decode signature_65) = 65"
    by code_simp
  have h6: "assertBase64 ''signatureB64'' (JStr ''!!!!'') = Inl (Error ''signatureB64 is not valid base64'')"
    by code_simp
  note t1 = verifySignature_fails_closed [where l = demo_libs and a = "JStr ''twilight1abc''"
      and s = "JStr signature_65" and p = "JStr pubkey_33" and m = "JStr ''hello''"
      and address = "''twilight1abc''" and mtext = "''hello''" and sg = signature_65
      and pk = pubkey_33 and bytes = "[104, 101, 108, 108, 111]"]
  from t1 h1 h2 h3 h4 h5
  have r1: "verifySignature demo_libs (JStr ''twilight1abc'') (JStr signature_65) (JStr pubkey_33)
              (JStr ''hello'') =
            Inr \<lparr>ok = False, error = Some ''signature must be 64 bytes (r||s). Got 65''\<rparr>"
    by blast
  have r2: "verifySignature demo_libs (JStr ''twilight1abc'') (JStr ''!!!!'') (JStr pubkey_33)
              (JStr ''hello'') =
            Inr \<lparr>ok = False, error = Some ''signatureB64 is not valid base64''\<rparr>"
    by (simp add: verifySignature_def verifySignature_try_def h6)
  from h1 h2 h3 h4 h5 h6 r1 r2 show ?thesis
    by simp
qed

end
